theory Spec2Isabelle
  imports Main "HOL-Library.Word" "HOL-Library.Multiset"
begin


section \<open>Engine types used by the skeleton merge\<close>

text \<open>
  The merge code of \<^verbatim>\<open>JrSkeletalMergingLibrary.cpp\<close> is written against engine types
  whose implementation is not part of the repository. They are modelled as follows.
  \<^item> \<^verbatim>\<open>uint32\<close> is a 32-bit word.
  \<^item> \<^verbatim>\<open>FName\<close> is a string; \<^verbatim>\<open>NAME_None\<close> prints as \<^verbatim>\<open>None\<close>.
  \<^item> \<^verbatim>\<open>FString operator/\<close> joins two path segments with a separator, so
    \<^verbatim>\<open>Name.ToString() / "1"\<close> is the name followed by \<^verbatim>\<open>/1\<close>.
  \<^item> \<^verbatim>\<open>FTransform\<close> is a record of rotation, translation and scale over two type
    parameters (vectors and quaternions); no arithmetic on them is fixed.
  \<^item> \<^verbatim>\<open>GetTypeHash\<close>, \<^verbatim>\<open>HashCombine\<close>, \<^verbatim>\<open>FTransform::TransformPosition\<close>,
    \<^verbatim>\<open>FTransform::TransformRotation\<close> and \<^verbatim>\<open>FTransform::Equals\<close> are engine functions:
    they are the fields of a record \<open>engine\<close> that every operation takes as a parameter.
  \<^item> \<^verbatim>\<open>INDEX_NONE\<close> is \<open>-1\<close>; indices are integers.
  \<^item> \<^verbatim>\<open>check\<close> failures, out-of-range array reads and null dereferences stop the
    editor; they are values of the type \<open>fatal\<close>.
\<close>

type_synonym uint32 = "32 word"
type_synonym FName = string

definition NAME_None :: FName where
  "NAME_None = ''None''"

definition IsNone :: "FName \<Rightarrow> bool" where
  "IsNone n = (n = NAME_None)"

definition PathJoin :: "string \<Rightarrow> string \<Rightarrow> string" where
  "PathJoin a b = a @ ''/'' @ b"

definition INDEX_NONE :: int where
  "INDEX_NONE = -1"

record ('v, 'q) FTransform =
  Rotation :: 'q
  Translation :: 'v
  Scale3D :: 'v

record ('v, 'q) engine =
  GetTypeHash :: "FName \<Rightarrow> uint32"
  HashCombine :: "uint32 \<Rightarrow> uint32 \<Rightarrow> uint32"
  TransformPosition :: "('v, 'q) FTransform \<Rightarrow> 'v \<Rightarrow> 'v"
  TransformRotation :: "('v, 'q) FTransform \<Rightarrow> 'q \<Rightarrow> 'q"
  Equals :: "('v, 'q) FTransform \<Rightarrow> ('v, 'q) FTransform \<Rightarrow> bool"

datatype fatal = CheckFailed | IndexOutOfRange | NullDereference | UninitialisedPointer

record FMeshBoneInfo =
  Name :: FName
  ParentIndex :: int

text \<open>\<^verbatim>\<open>TArray::operator[]\<close>: a read outside the array is fatal.\<close>

definition At :: "'a list \<Rightarrow> int \<Rightarrow> fatal + 'a" where
  "At xs i = (if 0 \<le> i \<and> i < int (length xs) then Inr (xs ! nat i) else Inl IndexOutOfRange)"

text \<open>\<^verbatim>\<open>TSet::Add\<close>: an element already present is kept where it is, a new one goes
  last (iteration follows insertion order as long as nothing is removed).\<close>

definition TSet_Add :: "'a list \<Rightarrow> 'a \<Rightarrow> 'a list" where
  "TSet_Add xs x = (if x \<in> set xs then xs else xs @ [x])"

text \<open>\<^verbatim>\<open>TMap::Add\<close> on a map whose iteration order matters: the value of a key
  already present is replaced in place, a new key goes last.\<close>

fun TMap_Add :: "('k \<times> 'a) list \<Rightarrow> 'k \<Rightarrow> 'a \<Rightarrow> ('k \<times> 'a) list" where
  "TMap_Add [] k v = [(k, v)]"
| "TMap_Add (p # ps) k v = (if fst p = k then (k, v) # ps else p # TMap_Add ps k v)"

text \<open>Name lookup in a bone list (\<^verbatim>\<open>FindBoneIndex\<close>): the index of the first bone of
  that name, \<^verbatim>\<open>INDEX_NONE\<close> when there is none.\<close>

fun IndexOfName :: "FName list \<Rightarrow> FName \<Rightarrow> int" where
  "IndexOfName [] n = -1"
| "IndexOfName (m # ms) n =
     (if m = n then 0 else (let i = IndexOfName ms n in if i < 0 then -1 else i + 1))"

section \<open>\<^verbatim>\<open>FMergedBoneHierarchy\<close>\<close>

record ('v, 'q) FMergedBoneHierarchy =
  BoneNamePose :: "FName \<rightharpoonup> ('v, 'q) FTransform"
  PathToBoneNames :: "FName \<rightharpoonup> uint32"
  PathHashToBoneNames :: "uint32 \<rightharpoonup> FName list"

definition EmptyHierarchy :: "('v, 'q) FMergedBoneHierarchy" where
  "EmptyHierarchy =
     \<lparr>BoneNamePose = Map.empty, PathToBoneNames = Map.empty, PathHashToBoneNames = Map.empty\<rparr>"

definition AddBone ::
  "('v, 'q) engine \<Rightarrow> ('v, 'q) FMergedBoneHierarchy \<Rightarrow> FName \<Rightarrow> ('v, 'q) FTransform \<Rightarrow> uint32
   \<Rightarrow> ('v, 'q) FMergedBoneHierarchy" where
  "AddBone E H BoneName ReferencePose PathHash =
     H\<lparr>BoneNamePose := (BoneNamePose H)(BoneName \<mapsto> ReferencePose),
       PathHashToBoneNames := (PathHashToBoneNames H)
         (PathHash \<mapsto> TSet_Add (case PathHashToBoneNames H PathHash of None \<Rightarrow> [] | Some s \<Rightarrow> s) BoneName),
       PathToBoneNames := (PathToBoneNames H)
         (BoneName \<mapsto> HashCombine E PathHash (GetTypeHash E BoneName))\<rparr>"

text \<open>The \<^verbatim>\<open>FReferenceSkeletonModifier\<close> of the generated skeleton is the list of the
  bones added so far, each with its pose; \<^verbatim>\<open>Add\<close> appends.\<close>

type_synonym ('v, 'q) modifier = "(FMeshBoneInfo \<times> ('v, 'q) FTransform) list"

definition FindBoneIndex :: "('v, 'q) modifier \<Rightarrow> FName \<Rightarrow> int" where
  "FindBoneIndex sk n = IndexOfName (map (\<lambda>b. Name (fst b)) sk) n"

text \<open>
  \<^verbatim>\<open>RecursiveAddBones\<close> recurses as long as the child map leads on, so the model
  carries fuel for the depth of the recursion: \<open>None\<close> is "did not return within
  this depth". \<open>AddChildBones\<close> is the \<^verbatim>\<open>for\<close> loop over the child set; its first
  argument is the recursive call.
\<close>

fun AddChildBones ::
  "(('v, 'q) modifier \<Rightarrow> FName \<Rightarrow> (fatal + ('v, 'q) modifier) option)
   \<Rightarrow> ('v, 'q) FMergedBoneHierarchy \<Rightarrow> FName \<Rightarrow> FName list \<Rightarrow> ('v, 'q) modifier
   \<Rightarrow> (fatal + ('v, 'q) modifier) option" where
  "AddChildBones recurse H ParentBoneName [] sk = Some (Inr sk)"
| "AddChildBones recurse H ParentBoneName (ChildBoneName # rest) sk =
     (case BoneNamePose H ChildBoneName of
        None \<Rightarrow> Some (Inl CheckFailed)
      | Some pose \<Rightarrow>
          (case recurse
                  (sk @ [(\<lparr>Name = ChildBoneName, ParentIndex = FindBoneIndex sk ParentBoneName\<rparr>, pose)])
                  ChildBoneName of
             Some (Inr sk') \<Rightarrow> AddChildBones recurse H ParentBoneName rest sk'
           | other \<Rightarrow> other))"

fun RecursiveAddBones ::
  "nat \<Rightarrow> ('v, 'q) FMergedBoneHierarchy \<Rightarrow> ('v, 'q) modifier \<Rightarrow> FName
   \<Rightarrow> (fatal + ('v, 'q) modifier) option" where
  "RecursiveAddBones 0 H sk ParentBoneName = None"
| "RecursiveAddBones (Suc fuel) H sk ParentBoneName =
     (case PathToBoneNames H ParentBoneName of
        None \<Rightarrow> Some (Inl CheckFailed)
      | Some PathHash \<Rightarrow>
          (case PathHashToBoneNames H PathHash of
             None \<Rightarrow> Some (Inr sk)
           | Some BoneNames \<Rightarrow>
               AddChildBones (\<lambda>s c. RecursiveAddBones fuel H s c) H ParentBoneName BoneNames sk))"

definition PopulateSkeleton ::
  "nat \<Rightarrow> ('v, 'q) engine \<Rightarrow> ('v, 'q) FMergedBoneHierarchy \<Rightarrow> (fatal + ('v, 'q) modifier) option" where
  "PopulateSkeleton fuel E H =
     (case PathHashToBoneNames H (HashCombine E 0 0) of
        None \<Rightarrow> Some (Inl CheckFailed)
      | Some ChildBoneNames \<Rightarrow>
          (case ChildBoneNames of
             [] \<Rightarrow> Some (Inl IndexOutOfRange)
           | RootBoneName # _ \<Rightarrow>
               (case BoneNamePose H RootBoneName of
                  None \<Rightarrow> Some (Inl CheckFailed)
                | Some pose \<Rightarrow>
                    RecursiveAddBones fuel H
                      [(\<lparr>Name = RootBoneName, ParentIndex = INDEX_NONE\<rparr>, pose)] RootBoneName)))"

section \<open>Source skeletons, blueprint nodes and merge parameters\<close>

text \<open>
  A \<^verbatim>\<open>USkeleton\<close> is an object: \<open>ObjectAddress\<close> is its identity, which is what
  \<^verbatim>\<open>TArray::AddUnique\<close> and the test \<^verbatim>\<open>InSkeleton == Skeleton\<close> compare. A null
  pointer in \<^verbatim>\<open>SkeletonsToMerge\<close> is \<open>None\<close>. Only the parts of a skeleton that the
  bone and socket merge read are kept: the raw reference bones, their poses and the
  sockets (virtual bones, curves, slot groups and blend profiles are left out).
\<close>

record ('v, 'r) USkeletalMeshSocket =
  SocketName :: FName
  BoneName :: FName
  RelativeLocation :: 'v
  RelativeRotation :: 'r
  RelativeScale :: 'v
  bForceAlwaysAnimated :: bool

record ('v, 'q, 'r) USkeleton =
  ObjectAddress :: nat
  RawRefBoneInfo :: "FMeshBoneInfo list"
  RawRefBonePose :: "('v, 'q) FTransform list"
  Sockets :: "('v, 'r) USkeletalMeshSocket list"

text \<open>
  A \<^verbatim>\<open>USCS_Node\<close> of the blueprint, reduced to what \<^verbatim>\<open>MergeSkeletons\<close> reads through
  it: the identity of its component template, the skeleton of the template's mesh
  asset, \<^verbatim>\<open>AttachToName\<close>, the templates of its child nodes, the reference skeleton of
  the mesh asset (bone names and raw poses) and the component's relative transform.
  Every node is taken to hold a skeletal mesh component with a mesh asset, as
  \<^verbatim>\<open>GetSkeletalNodesByClass\<close> selects them.
\<close>

record ('v, 'q) USCS_Node =
  ComponentTemplate :: nat
  TemplateSkeleton :: nat
  AttachToName :: FName
  ChildNodes :: "nat list"
  MeshRefBoneNames :: "FName list"
  MeshRawRefBonePose :: "('v, 'q) FTransform list"
  RelativeTransform :: "('v, 'q) FTransform"

record ('v, 'q, 'r) FSkeletonMergeParams =
  SkeletonsToMerge :: "('v, 'q, 'r) USkeleton option list"
  bMergeSockets :: bool
  bCheckSkeletonsCompatibility :: bool

datatype log_line =
  ErrorInvalidBoneChain nat
| WarningDifferentReferencePose nat

text \<open>
  The local variables of \<^verbatim>\<open>MergeSkeletons\<close> that live across loop iterations.
  \<^verbatim>\<open>BoneNode\<close> is declared inside the bone loop without an initialiser and is only
  assigned for the root bone of a skeleton after the first; the later iterations read it
  all the same. The model keeps the last node stored (what the unoptimised build, which
  the file asks for, does with the stack slot) and treats a read before any store as
  fatal.
\<close>

record ('v, 'q, 'r) merge_state =
  MergedBoneHierarchy :: "('v, 'q) FMergedBoneHierarchy"
  BoneNamesToPathHash :: "FName \<rightharpoonup> uint32"
  BoneNamesToBonePose :: "FName \<rightharpoonup> ('v, 'q) FTransform"
  HashToSockets :: "(uint32 \<times> ('v, 'r) USkeletalMeshSocket) list"
  bMergeSkeletonsFailed :: bool
  BoneNode :: "('v, 'q) USCS_Node option"
  LogLines :: "log_line list"

definition InitialState :: "('v, 'q, 'r) merge_state" where
  "InitialState =
     \<lparr>MergedBoneHierarchy = EmptyHierarchy, BoneNamesToPathHash = Map.empty,
      BoneNamesToBonePose = Map.empty, HashToSockets = [], bMergeSkeletonsFailed = False,
      BoneNode = None, LogLines = []\<rparr>"

record ('v, 'q, 'r) GeneratedSkeleton =
  MergedBones :: "('v, 'q) modifier"
  MergedSockets :: "('v, 'r) USkeletalMeshSocket list"

datatype null_reason = NoSkeletons | NoBones | InvalidParentChains

datatype 'a outcome = ReturnsNull null_reason | Crashes fatal | Returns 'a

section \<open>\<^verbatim>\<open>UJrSkeletalMergingLibrary::MergeSkeletons\<close>\<close>

definition SamePointer :: "('v, 'q, 'r) USkeleton option \<Rightarrow> ('v, 'q, 'r) USkeleton option \<Rightarrow> bool" where
  "SamePointer a b =
     (case a of
        None \<Rightarrow> b = None
      | Some x \<Rightarrow> (case b of None \<Rightarrow> False | Some y \<Rightarrow> ObjectAddress x = ObjectAddress y))"

definition AddUnique ::
  "('v, 'q, 'r) USkeleton option list \<Rightarrow> ('v, 'q, 'r) USkeleton option \<Rightarrow> ('v, 'q, 'r) USkeleton option list" where
  "AddUnique xs x = (if \<exists>y \<in> set xs. SamePointer y x then xs else xs @ [x])"

definition ToMergeSkeletons ::
  "('v, 'q, 'r) FSkeletonMergeParams \<Rightarrow> ('v, 'q, 'r) USkeleton option list" where
  "ToMergeSkeletons Params = foldl AddUnique [] (SkeletonsToMerge Params)"

fun TotalPossibleBones :: "('v, 'q, 'r) USkeleton option list \<Rightarrow> fatal + nat" where
  "TotalPossibleBones [] = Inr 0"
| "TotalPossibleBones (None # rest) = Inl NullDereference"
| "TotalPossibleBones (Some Skeleton # rest) =
     (case TotalPossibleBones rest of
        Inl e \<Rightarrow> Inl e
      | Inr n \<Rightarrow> Inr (length (RawRefBoneInfo Skeleton) + n))"

text \<open>The inner search of the fallback: the first node that has the component among its
  children gives the name of the first bone of its mesh.\<close>

fun ParentComponentRootName :: "('v, 'q) USCS_Node list \<Rightarrow> nat \<Rightarrow> FName \<Rightarrow> fatal + FName" where
  "ParentComponentRootName [] Template ParentName = Inr ParentName"
| "ParentComponentRootName (Node1 # rest) Template ParentName =
     (if Template \<in> set (ChildNodes Node1)
      then (case MeshRefBoneNames Node1 of [] \<Rightarrow> Inl IndexOutOfRange | n # _ \<Rightarrow> Inr n)
      else ParentComponentRootName rest Template ParentName)"

text \<open>Lines 872 to 909: the parent of the root bone of a skeleton after the first.
  The result is the new \<^verbatim>\<open>ParentName\<close>, \<^verbatim>\<open>ParentHash\<close> and \<^verbatim>\<open>BoneNode\<close>.\<close>

definition ResolveRootParent ::
  "('v, 'q) engine \<Rightarrow> ('v, 'q) USCS_Node list \<Rightarrow> ('v, 'q, 'r) USkeleton
   \<Rightarrow> FName \<Rightarrow> uint32 \<Rightarrow> ('v, 'q) USCS_Node option
   \<Rightarrow> fatal + (FName \<times> uint32 \<times> ('v, 'q) USCS_Node option)" where
  "ResolveRootParent E SkeletalNodes Skeleton ParentName ParentHash OldBoneNode =
     (case find (\<lambda>Node. TemplateSkeleton Node = ObjectAddress Skeleton) SkeletalNodes of
        None \<Rightarrow> Inr (ParentName, ParentHash, OldBoneNode)
      | Some Node \<Rightarrow>
          (let ParentName1 = PathJoin (AttachToName Node) ''1'' in
           if IsNone ParentName1
           then (case ParentComponentRootName SkeletalNodes (ComponentTemplate Node) ParentName1 of
                   Inl e \<Rightarrow> Inl e
                 | Inr ParentName2 \<Rightarrow> Inr (ParentName2, GetTypeHash E ParentName2, Some Node))
           else Inr (ParentName1, GetTypeHash E ParentName1, Some Node)))"

definition IsValidIndex :: "'a list \<Rightarrow> int \<Rightarrow> bool" where
  "IsValidIndex xs i = (0 \<le> i \<and> i < int (length xs))"

text \<open>Lines 955 to 980: the transform of a bone of a skeleton after the first, given
  the node in \<^verbatim>\<open>BoneNode\<close>.\<close>

definition GraftTransform ::
  "('v, 'q) engine \<Rightarrow> ('v, 'q) USCS_Node \<Rightarrow> FMeshBoneInfo \<Rightarrow> int \<Rightarrow> FName
   \<Rightarrow> ('v, 'q) FTransform \<Rightarrow> ('v, 'q) FTransform" where
  "GraftTransform E Node Bone BoneIndex Bone_Name Transform =
     (let RefPose = MeshRawRefBonePose Node;
          Index = IndexOfName (MeshRefBoneNames Node) Bone_Name
      in if IsValidIndex RefPose Index
         then (let BoneRelativeTransform = RefPose ! nat Index in
               if ParentIndex Bone = INDEX_NONE
               then (let MeshRelativeTransform = RelativeTransform Node;
                         BoneWorldTransform = RefPose ! 0
                     in Transform
                          \<lparr>Translation := TransformPosition E MeshRelativeTransform (Translation BoneWorldTransform),
                           Rotation := TransformRotation E MeshRelativeTransform (Rotation BoneWorldTransform)\<rparr>)
               else if BoneIndex > 0
               then Transform
                      \<lparr>Translation := Translation BoneRelativeTransform,
                       Rotation := Rotation BoneRelativeTransform\<rparr>
               else Transform)
         else Transform)"

text \<open>Lines 866 to 919: parent name, parent hash and the node, then the name under
  which the bone is merged and its path hash. The result is
  \<open>(Bone_Name, BonePathHash, BoneNode)\<close>.\<close>

definition BonePath ::
  "('v, 'q) engine \<Rightarrow> ('v, 'q) USCS_Node list \<Rightarrow> nat \<Rightarrow> ('v, 'q, 'r) USkeleton \<Rightarrow> FMeshBoneInfo
   \<Rightarrow> ('v, 'q, 'r) merge_state \<Rightarrow> fatal + (FName \<times> uint32 \<times> ('v, 'q) USCS_Node option)" where
  "BonePath E SkeletalNodes SkeletonIndex Skeleton Bone st =
     (case (if ParentIndex Bone \<noteq> INDEX_NONE
            then (case At (RawRefBoneInfo Skeleton) (ParentIndex Bone) of
                    Inl e \<Rightarrow> Inl e
                  | Inr Parent \<Rightarrow> Inr (Name Parent))
            else Inr NAME_None) of
        Inl e \<Rightarrow> Inl e
      | Inr ParentName0 \<Rightarrow>
          (let ParentName = PathJoin ParentName0 ''1'';
               ParentHash = (if ParentIndex Bone \<noteq> INDEX_NONE then GetTypeHash E ParentName else 0)
           in case (if SkeletonIndex > 0 \<and> ParentIndex Bone = INDEX_NONE
                    then ResolveRootParent E SkeletalNodes Skeleton ParentName ParentHash (BoneNode st)
                    else Inr (ParentName, ParentHash, BoneNode st)) of
                Inl e \<Rightarrow> Inl e
              | Inr (ParentName, ParentHash, Node) \<Rightarrow>
                  (let Bone_Name = PathJoin (Name Bone) ''1'';
                       ParentPathHash = (case BoneNamesToPathHash st ParentName of
                                           Some ParentPath \<Rightarrow> ParentPath | None \<Rightarrow> 0);
                       BonePathHash = HashCombine E ParentPathHash ParentHash
                   in Inr (Bone_Name, BonePathHash, Node))))"

text \<open>Lines 947 to 983: record the path hash, compute the transform and add the bone.\<close>

definition StoreBone ::
  "('v, 'q) engine \<Rightarrow> nat \<Rightarrow> FMeshBoneInfo \<Rightarrow> int \<Rightarrow> FName \<Rightarrow> uint32 \<Rightarrow> ('v, 'q) FTransform
   \<Rightarrow> ('v, 'q, 'r) merge_state \<Rightarrow> fatal + ('v, 'q, 'r) merge_state" where
  "StoreBone E SkeletonIndex Bone BoneIndex Bone_Name BonePathHash Pose st =
     (let st1 = st\<lparr>BoneNamesToPathHash := (BoneNamesToPathHash st)(Bone_Name \<mapsto> BonePathHash)\<rparr> in
      case (if SkeletonIndex > 0
            then (case BoneNode st of
                    None \<Rightarrow> Inl UninitialisedPointer
                  | Some Node \<Rightarrow> Inr (GraftTransform E Node Bone BoneIndex Bone_Name Pose))
            else Inr Pose) of
        Inl e \<Rightarrow> Inl e
      | Inr Transform \<Rightarrow>
          Inr (st1\<lparr>MergedBoneHierarchy :=
                     AddBone E (MergedBoneHierarchy st1) Bone_Name Transform BonePathHash\<rparr>))"

text \<open>One iteration of the bone loop (lines 864 to 983). The result is the new state,
  the new \<^verbatim>\<open>bConflictivePoseFound\<close> and whether the loop was left by \<^verbatim>\<open>break\<close>.\<close>

definition ProcessBone ::
  "('v, 'q) engine \<Rightarrow> ('v, 'q, 'r) FSkeletonMergeParams \<Rightarrow> ('v, 'q) USCS_Node list \<Rightarrow> nat
   \<Rightarrow> ('v, 'q, 'r) USkeleton \<Rightarrow> nat \<Rightarrow> ('v, 'q, 'r) merge_state \<Rightarrow> bool
   \<Rightarrow> fatal + (('v, 'q, 'r) merge_state \<times> bool \<times> bool)" where
  "ProcessBone E Params SkeletalNodes SkeletonIndex Skeleton BoneIndex st bConflictivePoseFound =
     (case At (RawRefBoneInfo Skeleton) (int BoneIndex) of
        Inl e \<Rightarrow> Inl e
      | Inr Bone \<Rightarrow>
     (case BonePath E SkeletalNodes SkeletonIndex Skeleton Bone st of
        Inl e \<Rightarrow> Inl e
      | Inr (Bone_Name, BonePathHash, Node) \<Rightarrow>
     (let st0 = st\<lparr>BoneNode := Node\<rparr>;
          Existing = (if bCheckSkeletonsCompatibility Params then BoneNamesToPathHash st Bone_Name else None)
      in if Existing \<noteq> None \<and> Existing \<noteq> Some BonePathHash
         then Inr (st0\<lparr>bMergeSkeletonsFailed := True,
                       LogLines := LogLines st @ [ErrorInvalidBoneChain (ObjectAddress Skeleton)]\<rparr>,
                   bConflictivePoseFound, True)
         else
           (case (if Existing \<noteq> None \<and> \<not> bConflictivePoseFound
                  then (case BoneNamesToBonePose st Bone_Name of
                          None \<Rightarrow> Inl CheckFailed
                        | Some Recorded \<Rightarrow> Inr (Some Recorded))
                  else Inr None) of
              Inl e \<Rightarrow> Inl e
            | Inr Compared \<Rightarrow>
           (case At (RawRefBonePose Skeleton) (int BoneIndex) of
              Inl e \<Rightarrow> Inl e
            | Inr Pose \<Rightarrow>
           (let Differs = (case Compared of None \<Rightarrow> False | Some Recorded \<Rightarrow> \<not> Equals E Recorded Pose);
                st1 = (if Differs
                       then st0\<lparr>LogLines := LogLines st @ [WarningDifferentReferencePose (ObjectAddress Skeleton)]\<rparr>
                       else st0);
                st2 = (if bCheckSkeletonsCompatibility Params
                       then st1\<lparr>BoneNamesToBonePose := (BoneNamesToBonePose st)(Bone_Name \<mapsto> Pose)\<rparr>
                       else st1)
            in case StoreBone E SkeletonIndex Bone (int BoneIndex) Bone_Name BonePathHash Pose st2 of
                 Inl e \<Rightarrow> Inl e
               | Inr st3 \<Rightarrow> Inr (st3, bConflictivePoseFound \<or> Differs, False)))))))"

text \<open>The bone loop over \<open>BoneIndex = 0 ..< NumBones\<close>; \<^verbatim>\<open>break\<close> leaves it.\<close>

fun ProcessBones ::
  "('v, 'q) engine \<Rightarrow> ('v, 'q, 'r) FSkeletonMergeParams \<Rightarrow> ('v, 'q) USCS_Node list \<Rightarrow> nat
   \<Rightarrow> ('v, 'q, 'r) USkeleton \<Rightarrow> nat list \<Rightarrow> ('v, 'q, 'r) merge_state \<Rightarrow> bool
   \<Rightarrow> fatal + ('v, 'q, 'r) merge_state" where
  "ProcessBones E Params SkeletalNodes SkeletonIndex Skeleton [] st bConflictivePoseFound = Inr st"
| "ProcessBones E Params SkeletalNodes SkeletonIndex Skeleton (BoneIndex # rest) st bConflictivePoseFound =
     (case ProcessBone E Params SkeletalNodes SkeletonIndex Skeleton BoneIndex st bConflictivePoseFound of
        Inl e \<Rightarrow> Inl e
      | Inr (st', found, left) \<Rightarrow>
          if left then Inr st'
          else ProcessBones E Params SkeletalNodes SkeletonIndex Skeleton rest st' found)"

text \<open>Lines 991 to 998: the sockets of one skeleton, keyed by the combined hash of
  socket name and bone name.\<close>

definition SocketKey :: "('v, 'q) engine \<Rightarrow> ('v, 'r) USkeletalMeshSocket \<Rightarrow> uint32" where
  "SocketKey E Socket = HashCombine E (GetTypeHash E (SocketName Socket)) (GetTypeHash E (BoneName Socket))"

definition CollectSockets ::
  "('v, 'q) engine \<Rightarrow> (uint32 \<times> ('v, 'r) USkeletalMeshSocket) list \<Rightarrow> ('v, 'r) USkeletalMeshSocket list
   \<Rightarrow> (uint32 \<times> ('v, 'r) USkeletalMeshSocket) list" where
  "CollectSockets E tbl socks = foldl (\<lambda>t Socket. TMap_Add t (SocketKey E Socket) Socket) tbl socks"

text \<open>One iteration of the skeleton loop (lines 854 to 1038).\<close>

definition ProcessSkeleton ::
  "('v, 'q) engine \<Rightarrow> ('v, 'q, 'r) FSkeletonMergeParams \<Rightarrow> ('v, 'q) USCS_Node list \<Rightarrow> nat
   \<Rightarrow> ('v, 'q, 'r) USkeleton option \<Rightarrow> ('v, 'q, 'r) merge_state \<Rightarrow> fatal + ('v, 'q, 'r) merge_state" where
  "ProcessSkeleton E Params SkeletalNodes SkeletonIndex Ptr st =
     (case Ptr of
        None \<Rightarrow> Inl NullDereference
      | Some Skeleton \<Rightarrow>
          (case ProcessBones E Params SkeletalNodes SkeletonIndex Skeleton
                  [0 ..< length (RawRefBoneInfo Skeleton)] st False of
             Inl e \<Rightarrow> Inl e
           | Inr st' \<Rightarrow>
               if bCheckSkeletonsCompatibility Params \<and> bMergeSkeletonsFailed st' then Inr st'
               else if bMergeSockets Params
               then Inr (st'\<lparr>HashToSockets := CollectSockets E (HashToSockets st') (Sockets Skeleton)\<rparr>)
               else Inr st'))"

fun ProcessSkeletons ::
  "('v, 'q) engine \<Rightarrow> ('v, 'q, 'r) FSkeletonMergeParams \<Rightarrow> ('v, 'q) USCS_Node list \<Rightarrow> nat
   \<Rightarrow> ('v, 'q, 'r) USkeleton option list \<Rightarrow> ('v, 'q, 'r) merge_state \<Rightarrow> fatal + ('v, 'q, 'r) merge_state" where
  "ProcessSkeletons E Params SkeletalNodes SkeletonIndex [] st = Inr st"
| "ProcessSkeletons E Params SkeletalNodes SkeletonIndex (Ptr # rest) st =
     (case ProcessSkeleton E Params SkeletalNodes SkeletonIndex Ptr st of
        Inl e \<Rightarrow> Inl e
      | Inr st' \<Rightarrow> ProcessSkeletons E Params SkeletalNodes (Suc SkeletonIndex) rest st')"

text \<open>\<^verbatim>\<open>AddSockets\<close> copies every field of every socket into a new socket of the
  generated skeleton.\<close>

definition AddSockets :: "('v, 'r) USkeletalMeshSocket list \<Rightarrow> ('v, 'r) USkeletalMeshSocket list" where
  "AddSockets InSockets =
     map (\<lambda>MergeSocket.
            \<lparr>SocketName = SocketName MergeSocket, BoneName = BoneName MergeSocket,
             RelativeLocation = RelativeLocation MergeSocket,
             RelativeRotation = RelativeRotation MergeSocket,
             RelativeScale = RelativeScale MergeSocket,
             bForceAlwaysAnimated = bForceAlwaysAnimated MergeSocket\<rparr>) InSockets"

text \<open>The whole function. \<open>None\<close> is "the traversal of \<^verbatim>\<open>PopulateSkeleton\<close> did not
  return within the fuel".\<close>

definition MergeSkeletons ::
  "nat \<Rightarrow> ('v, 'q) engine \<Rightarrow> ('v, 'q, 'r) FSkeletonMergeParams \<Rightarrow> ('v, 'q) USCS_Node list
   \<Rightarrow> ('v, 'q, 'r) GeneratedSkeleton outcome option" where
  "MergeSkeletons fuel E Params SkeletalNodes =
     (let Skeletons = ToMergeSkeletons Params in
      if length Skeletons = 0 then Some (ReturnsNull NoSkeletons)
      else
        (case TotalPossibleBones Skeletons of
           Inl e \<Rightarrow> Some (Crashes e)
         | Inr PossibleBones \<Rightarrow>
             if PossibleBones = 0 then Some (ReturnsNull NoBones)
             else
               (case ProcessSkeletons E Params SkeletalNodes 0 Skeletons InitialState of
                  Inl e \<Rightarrow> Some (Crashes e)
                | Inr st \<Rightarrow>
                    if bMergeSkeletonsFailed st then Some (ReturnsNull InvalidParentChains)
                    else
                      (case PopulateSkeleton fuel E (MergedBoneHierarchy st) of
                         None \<Rightarrow> None
                       | Some (Inl e) \<Rightarrow> Some (Crashes e)
                       | Some (Inr sk) \<Rightarrow>
                           Some (Returns
                             \<lparr>MergedBones = sk,
                              MergedSockets =
                                (if bMergeSockets Params
                                 then AddSockets (map snd (HashToSockets st)) else [])\<rparr>)))))"

section \<open>Notions used to state the properties\<close>

text \<open>\<open>ChildOf H c p\<close>: the hierarchy lists \<open>c\<close> in the child set stored under the path
  hash of \<open>p\<close>, which is how \<^verbatim>\<open>RecursiveAddBones\<close> finds the children of \<open>p\<close>.\<close>

definition ChildOf :: "('v, 'q) FMergedBoneHierarchy \<Rightarrow> FName \<Rightarrow> FName \<Rightarrow> bool" where
  "ChildOf H c p =
     (case PathToBoneNames H p of
        None \<Rightarrow> False
      | Some k \<Rightarrow> (case PathHashToBoneNames H k of None \<Rightarrow> False | Some cs \<Rightarrow> c \<in> set cs))"

text \<open>\<open>ParentEarlier H sk i\<close>: the parent index of the bone at position \<open>i\<close> of the
  emitted list points to an earlier position, and the bone there is one of which the
  hierarchy makes this bone a child. \<open>Grown H sk sk'\<close>: \<open>sk'\<close> extends \<open>sk\<close> by bones that
  all have their parent earlier.\<close>

definition ParentEarlier :: "('v, 'q) FMergedBoneHierarchy \<Rightarrow> ('v, 'q) modifier \<Rightarrow> nat \<Rightarrow> bool" where
  "ParentEarlier H sk i =
     (0 \<le> ParentIndex (fst (sk ! i)) \<and> ParentIndex (fst (sk ! i)) < int i \<and>
      ChildOf H (Name (fst (sk ! i))) (Name (fst (sk ! nat (ParentIndex (fst (sk ! i)))))))"

definition Grown :: "('v, 'q) FMergedBoneHierarchy \<Rightarrow> ('v, 'q) modifier \<Rightarrow> ('v, 'q) modifier \<Rightarrow> bool" where
  "Grown H sk sk' =
     (take (length sk) sk' = sk \<and> length sk \<le> length sk' \<and>
      (\<forall>i. length sk \<le> i \<and> i < length sk' \<longrightarrow> ParentEarlier H sk' i))"

text \<open>A hierarchy as \<^verbatim>\<open>MergeSkeletons\<close> builds it: the result of a sequence of
  \<^verbatim>\<open>AddBone\<close> calls on the empty hierarchy. \<open>RootCandidates\<close> is the child set that
  \<^verbatim>\<open>PopulateSkeleton\<close> reads under \<^verbatim>\<open>HashCombine(0, 0)\<close>. \<open>Ranked H r\<close> says that
  the child relation of \<open>H\<close> descends along \<open>r\<close>, so that the traversal has no cycle
  (hash values that coincide can produce one).\<close>

definition AddBones ::
  "('v, 'q) engine \<Rightarrow> (FName \<times> ('v, 'q) FTransform \<times> uint32) list \<Rightarrow> ('v, 'q) FMergedBoneHierarchy" where
  "AddBones E adds = foldl (\<lambda>H (n, pose, k). AddBone E H n pose k) EmptyHierarchy adds"




definition ChildSet :: "('v, 'q) FMergedBoneHierarchy \<Rightarrow> uint32 \<Rightarrow> FName set" where
  "ChildSet H k = (case PathHashToBoneNames H k of None \<Rightarrow> {} | Some cs \<Rightarrow> set cs)"

text \<open>The sockets of all the sources in merge order, the names that occur in the child
  sets of a hierarchy, and the names under which the bones of the sources are merged.\<close>

definition SourceSockets :: "('v, 'q, 'r) USkeleton option list \<Rightarrow> ('v, 'r) USkeletalMeshSocket list" where
  "SourceSockets srcs = concat (map (\<lambda>p. case p of None \<Rightarrow> [] | Some S \<Rightarrow> Sockets S) srcs)"

definition NamesIn :: "('v, 'q) FMergedBoneHierarchy \<Rightarrow> FName set" where
  "NamesIn H = {c. \<exists>k cs. PathHashToBoneNames H k = Some cs \<and> c \<in> set cs}"

definition MergedNames :: "('v, 'q, 'r) USkeleton option list \<Rightarrow> FName set" where
  "MergedNames srcs =
     {PathJoin (Name b) ''1'' | b S. Some S \<in> set srcs \<and> b \<in> set (RawRefBoneInfo S)}"


text \<open>\<open>LastWins E t socks\<close>: the socket table \<open>t\<close> has one entry for each key of the
  sockets \<open>socks\<close>, and the entry of a key is the last socket of that key.\<close>

definition LastWins :: "('v, 'q) engine \<Rightarrow> (uint32 \<times> ('v, 'r) USkeletalMeshSocket) list
    \<Rightarrow> ('v, 'r) USkeletalMeshSocket list \<Rightarrow> bool" where
  "LastWins E t socks =
     (distinct (map fst t) \<and> fst ` set t = SocketKey E ` set socks \<and>
      (\<forall>p \<in> set t. SocketKey E (snd p) = fst p \<and>
                    snd p = last (filter (\<lambda>u. SocketKey E u = fst p) socks)))"







text \<open>
  A reference skeleton as the engine keeps it: as many poses as bones, bone 0 is the root
  and the only bone without a parent, every other bone comes after its parent, and no two
  bones share a name.
\<close>

definition WellFormed :: "('v, 'q, 'r) USkeleton \<Rightarrow> bool" where
  "WellFormed S =
     (RawRefBoneInfo S \<noteq> [] \<and>
      length (RawRefBonePose S) = length (RawRefBoneInfo S) \<and>
      distinct (map Name (RawRefBoneInfo S)) \<and>
      ParentIndex (RawRefBoneInfo S ! 0) = INDEX_NONE \<and>
      (\<forall>i. 0 < i \<and> i < length (RawRefBoneInfo S) \<longrightarrow>
           0 \<le> ParentIndex (RawRefBoneInfo S ! i) \<and> ParentIndex (RawRefBoneInfo S ! i) < int i))"











text \<open>
  \<open>Recorded H X\<close>: the three tables of a hierarchy hold exactly the names \<open>X\<close>.
  \<open>Coupled P st\<close>: with the compatibility check on, every name that has a path hash also
  has a pose in \<^verbatim>\<open>BoneNamesToBonePose\<close>, as the two are added together.
\<close>

definition Recorded :: "('v, 'q) FMergedBoneHierarchy \<Rightarrow> FName set \<Rightarrow> bool" where
  "Recorded H X = (dom (BoneNamePose H) = X \<and> dom (PathToBoneNames H) = X \<and> NamesIn H = X)"




section \<open>Sample data\<close>

text \<open>An instance of the engine functions over integers, used to run the model on
  concrete inputs: the name hash adds the character codes, \<^verbatim>\<open>HashCombine\<close> is
  \<open>33 * a + c + 5\<close>, a transform acts by addition and \<^verbatim>\<open>Equals\<close> is equality. On the
  names used below it has no collision.\<close>

definition SampleEngine :: "(int, int) engine" where
  "SampleEngine =
     \<lparr>GetTypeHash = (\<lambda>n. of_nat (sum_list (map of_char n))),
      HashCombine = (\<lambda>a c. 33 * a + c + 5),
      TransformPosition = (\<lambda>T v. Translation T + v),
      TransformRotation = (\<lambda>T q. Rotation T + q),
      Equals = (=)\<rparr>"

definition Pose :: "int \<Rightarrow> (int, int) FTransform" where
  "Pose x = \<lparr>Rotation = 0, Translation = x, Scale3D = 1\<rparr>"



definition Chain3 :: "(int, int) FMergedBoneHierarchy" where
  "Chain3 = AddBones SampleEngine
     [(''Root/1'', Pose 1, HashCombine SampleEngine 0 0),
      (''Spine/1'', Pose 2,
         HashCombine SampleEngine (HashCombine SampleEngine 0 0) (GetTypeHash SampleEngine ''Root/1'')),
      (''Head/1'', Pose 3,
         HashCombine SampleEngine
           (HashCombine SampleEngine (HashCombine SampleEngine 0 0) (GetTypeHash SampleEngine ''Root/1''))
           (GetTypeHash SampleEngine ''Spine/1''))]"

definition Chain3Bones :: "(int, int) modifier" where
  "Chain3Bones =
     [(\<lparr>Name = ''Root/1'', ParentIndex = -1\<rparr>, Pose 1),
      (\<lparr>Name = ''Spine/1'', ParentIndex = 0\<rparr>, Pose 2),
      (\<lparr>Name = ''Head/1'', ParentIndex = 1\<rparr>, Pose 3)]"

text \<open>Two source skeletons with the blueprint nodes of their mesh components: a body with
  the chain \<open>Root\<close>, \<open>Arm\<close>, \<open>Hand\<close>, and a one-bone blade attached to \<open>Hand\<close>. Both declare
  a socket \<open>Grip\<close> on \<open>Hand\<close>, at different places.\<close>

definition Bone :: "FName \<Rightarrow> int \<Rightarrow> FMeshBoneInfo" where
  "Bone n p = \<lparr>Name = n, ParentIndex = p\<rparr>"

definition Sock :: "FName \<Rightarrow> FName \<Rightarrow> int \<Rightarrow> (int, int) USkeletalMeshSocket" where
  "Sock n b x =
     \<lparr>SocketName = n, BoneName = b, RelativeLocation = x, RelativeRotation = 0,
      RelativeScale = 1, bForceAlwaysAnimated = True\<rparr>"

definition Body :: "(int, int, int) USkeleton" where
  "Body =
     \<lparr>ObjectAddress = 1,
      RawRefBoneInfo = [Bone ''Root'' (-1), Bone ''Arm'' 0, Bone ''Hand'' 1],
      RawRefBonePose = [Pose 1, Pose 2, Pose 3],
      Sockets = [Sock ''Grip'' ''Hand'' 10]\<rparr>"

definition Blade :: "(int, int, int) USkeleton" where
  "Blade =
     \<lparr>ObjectAddress = 2,
      RawRefBoneInfo = [Bone ''Blade'' (-1)],
      RawRefBonePose = [Pose 7],
      Sockets = [Sock ''Grip'' ''Hand'' 20, Sock ''Tip'' ''Blade'' 30]\<rparr>"

definition BodyNode :: "(int, int) USCS_Node" where
  "BodyNode =
     \<lparr>ComponentTemplate = 10, TemplateSkeleton = 1, AttachToName = ''None'', ChildNodes = [20],
      MeshRefBoneNames = [''Root'', ''Arm'', ''Hand''],
      MeshRawRefBonePose = [Pose 1, Pose 2, Pose 3],
      RelativeTransform = Pose 0\<rparr>"

definition BladeNode :: "(int, int) USCS_Node" where
  "BladeNode =
     \<lparr>ComponentTemplate = 20, TemplateSkeleton = 2, AttachToName = ''Hand'', ChildNodes = [],
      MeshRefBoneNames = [''Blade''], MeshRawRefBonePose = [Pose 7],
      RelativeTransform = Pose 100\<rparr>"

definition Params ::
  "(int, int, int) USkeleton option list \<Rightarrow> bool \<Rightarrow> bool \<Rightarrow> (int, int, int) FSkeletonMergeParams" where
  "Params srcs sockets check =
     \<lparr>SkeletonsToMerge = srcs, bMergeSockets = sockets, bCheckSkeletonsCompatibility = check\<rparr>"

definition BodyWithBlade :: "(int, int, int) GeneratedSkeleton" where
  "BodyWithBlade =
     \<lparr>MergedBones =
        [(Bone ''Root/1'' (-1), Pose 1), (Bone ''Arm/1'' 0, Pose 2), (Bone ''Hand/1'' 1, Pose 3),
         (Bone ''Blade/1'' 2, Pose 7)],
      MergedSockets = [Sock ''Grip'' ''Hand'' 20, Sock ''Tip'' ''Blade'' 30]\<rparr>"

text \<open>A third source: a skeleton whose only bone \<open>Hand\<close> is attached to \<open>Root\<close>, so that
  its chain differs from the chain of \<open>Hand\<close> in the body.\<close>

definition LooseHand :: "(int, int, int) USkeleton" where
  "LooseHand =
     \<lparr>ObjectAddress = 3, RawRefBoneInfo = [Bone ''Hand'' (-1)], RawRefBonePose = [Pose 9],
      Sockets = []\<rparr>"

definition LooseHandNode :: "(int, int) USCS_Node" where
  "LooseHandNode =
     \<lparr>ComponentTemplate = 30, TemplateSkeleton = 3, AttachToName = ''Root'', ChildNodes = [],
      MeshRefBoneNames = [''Hand''], MeshRawRefBonePose = [Pose 9],
      RelativeTransform = Pose 0\<rparr>"

text \<open>The blade attached to \<open>Root\<close>, and a blade whose skeleton and mesh also hold a bone
  that already carries the merged name \<open>Blade/1\<close>; a glove whose bone \<open>Hand\<close> is attached to
  \<open>Arm\<close>, as \<open>Hand\<close> is in the body, and a glove that also holds a bone \<open>Hand/1\<close>; and the
  state of the merge after a list of sources.\<close>

definition BladeOnRoot :: "(int, int) USCS_Node" where
  "BladeOnRoot = BladeNode\<lparr>AttachToName := ''Root''\<rparr>"

definition BladeRemerged :: "(int, int, int) USkeleton" where
  "BladeRemerged =
     \<lparr>ObjectAddress = 5,
      RawRefBoneInfo = [Bone ''Blade'' (-1), Bone ''Blade/1'' 0],
      RawRefBonePose = [Pose 7, Pose 8],
      Sockets = []\<rparr>"

definition BladeRemergedNode :: "(int, int) USCS_Node" where
  "BladeRemergedNode =
     \<lparr>ComponentTemplate = 50, TemplateSkeleton = 5, AttachToName = ''Root'', ChildNodes = [],
      MeshRefBoneNames = [''Blade'', ''Blade/1''], MeshRawRefBonePose = [Pose 7, Pose 8],
      RelativeTransform = Pose 100\<rparr>"

definition Glove :: "(int, int, int) USkeleton" where
  "Glove =
     \<lparr>ObjectAddress = 4, RawRefBoneInfo = [Bone ''Hand'' (-1)], RawRefBonePose = [Pose 9],
      Sockets = []\<rparr>"

definition GloveNode :: "(int, int) USCS_Node" where
  "GloveNode =
     \<lparr>ComponentTemplate = 40, TemplateSkeleton = 4, AttachToName = ''Arm'', ChildNodes = [],
      MeshRefBoneNames = [''Hand''], MeshRawRefBonePose = [Pose 9],
      RelativeTransform = Pose 100\<rparr>"

definition GloveRemerged :: "(int, int, int) USkeleton" where
  "GloveRemerged =
     \<lparr>ObjectAddress = 6,
      RawRefBoneInfo = [Bone ''Hand'' (-1), Bone ''Hand/1'' 0],
      RawRefBonePose = [Pose 9, Pose 4],
      Sockets = []\<rparr>"

definition GloveRemergedNode :: "(int, int) USCS_Node" where
  "GloveRemergedNode =
     \<lparr>ComponentTemplate = 60, TemplateSkeleton = 6, AttachToName = ''Arm'', ChildNodes = [],
      MeshRefBoneNames = [''Hand'', ''Hand/1''], MeshRawRefBonePose = [Pose 9, Pose 4],
      RelativeTransform = Pose 100\<rparr>"

definition StateAfter ::
  "(int, int, int) FSkeletonMergeParams \<Rightarrow> (int, int) USCS_Node list
   \<Rightarrow> (int, int, int) USkeleton option list \<Rightarrow> (int, int, int) merge_state" where
  "StateAfter P N srcs =
     (case ProcessSkeletons SampleEngine P N 0 srcs InitialState of
        Inl e \<Rightarrow> InitialState
      | Inr st \<Rightarrow> st)"

text \<open>A second body, in which \<open>Arm\<close> hangs off \<open>Root\<close> as in the first one.\<close>

definition Torso :: "(int, int, int) USkeleton" where
  "Torso =
     \<lparr>ObjectAddress = 7,
      RawRefBoneInfo = [Bone ''Root'' (-1), Bone ''Spine'' 0, Bone ''Arm'' 0],
      RawRefBonePose = [Pose 11, Pose 12, Pose 13],
      Sockets = []\<rparr>"



section \<open>Properties of \<^verbatim>\<open>PopulateSkeleton\<close>\<close>

lemma IndexOfName_mem:
  "n \<in> set ns \<Longrightarrow> 0 \<le> IndexOfName ns n \<and> IndexOfName ns n < int (length ns) \<and> ns ! nat (IndexOfName ns n) = n"
proof (induction ns)
  case Nil
  then show ?case by simp
next
  case (Cons m ms)
  show ?case
  proof (cases "m = n")
    case True
    then show ?thesis by simp
  next
    case False
    with Cons.prems have "n \<in> set ms" by simp
    from Cons.IH [OF this] False show ?thesis
      by (simp add: Let_def nat_add_distrib)
  qed
qed

lemma FindBoneIndex_mem:
  assumes "n \<in> (\<lambda>b. Name (fst b)) ` set sk"
  shows "0 \<le> FindBoneIndex sk n" and "FindBoneIndex sk n < int (length sk)"
    and "Name (fst (sk ! nat (FindBoneIndex sk n))) = n"
proof -
  from assms have m: "n \<in> set (map (\<lambda>b. Name (fst b)) sk)" by simp
  from IndexOfName_mem [OF m] show "0 \<le> FindBoneIndex sk n"
    by (simp add: FindBoneIndex_def)
  from IndexOfName_mem [OF m] show lt: "FindBoneIndex sk n < int (length sk)"
    by (simp add: FindBoneIndex_def)
  from IndexOfName_mem [OF m] have "map (\<lambda>b. Name (fst b)) sk ! nat (FindBoneIndex sk n) = n"
    by (simp add: FindBoneIndex_def)
  moreover from lt \<open>0 \<le> FindBoneIndex sk n\<close> have "nat (FindBoneIndex sk n) < length sk" by simp
  ultimately show "Name (fst (sk ! nat (FindBoneIndex sk n))) = n" by simp
qed

lemma Grown_refl: "Grown H sk sk"
  by (auto simp: Grown_def)

lemma ParentEarlier_take:
  assumes "take n sk' = sk" "i < n" "n \<le> length sk'" "ParentEarlier H sk i"
  shows "ParentEarlier H sk' i"
proof -
  have a: "\<And>j. j < n \<Longrightarrow> sk ! j = sk' ! j"
    using assms(1) by (metis nth_take)
  from assms(4) have "ParentIndex (fst (sk ! i)) < int i"
    by (simp add: ParentEarlier_def)
  with assms(2) have b: "nat (ParentIndex (fst (sk ! i))) < n"
    by linarith
  show ?thesis
    using assms(4) a [OF assms(2)] a [OF b] by (simp add: ParentEarlier_def)
qed

lemma Grown_trans:
  assumes "Grown H a b" "Grown H b c"
  shows "Grown H a c"
proof -
  from assms have ab: "take (length a) b = a" "length a \<le> length b"
    and bc: "take (length b) c = b" "length b \<le> length c"
    by (simp_all add: Grown_def)
  have t: "take (length a) c = a"
  proof -
    have "take (length a) (take (length b) c) = take (length a) c"
      using ab(2) by (simp add: min_def)
    with bc(1) ab(1) show ?thesis by simp
  qed
  have "ParentEarlier H c i" if "length a \<le> i" "i < length c" for i
  proof (cases "i < length b")
    case True
    from assms(1) that(1) True have "ParentEarlier H b i" by (simp add: Grown_def)
    from ParentEarlier_take [OF bc(1) True bc(2) this] show ?thesis .
  next
    case False
    with assms(2) that(2) show ?thesis by (simp add: Grown_def)
  qed
  with t ab(2) bc(2) show ?thesis by (simp add: Grown_def)
qed

lemma Grown_names:
  assumes "Grown H sk sk'" "n \<in> (\<lambda>b. Name (fst b)) ` set sk"
  shows "n \<in> (\<lambda>b. Name (fst b)) ` set sk'"
proof -
  from assms(1) have "set sk \<subseteq> set sk'"
    by (metis Grown_def set_take_subset)
  with assms(2) show ?thesis by blast
qed

lemma Grown_snoc:
  assumes "p \<in> (\<lambda>b. Name (fst b)) ` set sk" "ChildOf H c p"
  shows "Grown H sk (sk @ [(\<lparr>Name = c, ParentIndex = FindBoneIndex sk p\<rparr>, pose)])"
proof -
  let ?e = "(\<lparr>Name = c, ParentIndex = FindBoneIndex sk p\<rparr>, pose)"
  note f = FindBoneIndex_mem [OF assms(1)]
  have "nat (FindBoneIndex sk p) < length sk" using f(1,2) by simp
  then have "(sk @ [?e]) ! nat (FindBoneIndex sk p) = sk ! nat (FindBoneIndex sk p)"
    by (simp add: nth_append)
  with f assms(2) have "ParentEarlier H (sk @ [?e]) (length sk)"
    by (simp add: ParentEarlier_def)
  moreover have "i = length sk" if "length sk \<le> i" "i < length (sk @ [?e])" for i
    using that by simp
  ultimately have "\<forall>i. length sk \<le> i \<and> i < length (sk @ [?e]) \<longrightarrow> ParentEarlier H (sk @ [?e]) i"
    by blast
  then show ?thesis by (simp add: Grown_def)
qed

lemma AddChildBones_Grown:
  assumes rec: "\<And>s c r. recurse s c = Some (Inr r) \<Longrightarrow> c \<in> (\<lambda>b. Name (fst b)) ` set s \<Longrightarrow> Grown H s r"
  shows "AddChildBones recurse H p cs sk = Some (Inr sk') \<Longrightarrow>
         p \<in> (\<lambda>b. Name (fst b)) ` set sk \<Longrightarrow> (\<forall>c \<in> set cs. ChildOf H c p) \<Longrightarrow> Grown H sk sk'"
proof (induction cs arbitrary: sk)
  case Nil
  then show ?case by (simp add: Grown_refl)
next
  case (Cons c cs)
  from Cons.prems(1) obtain pose where pose: "BoneNamePose H c = Some pose"
    by (auto split: option.splits)
  let ?s = "sk @ [(\<lparr>Name = c, ParentIndex = FindBoneIndex sk p\<rparr>, pose)]"
  from Cons.prems(1) pose obtain r where r: "recurse ?s c = Some (Inr r)"
    and rest: "AddChildBones recurse H p cs r = Some (Inr sk')"
    by (auto split: option.splits sum.splits)
  from Cons.prems(3) have "ChildOf H c p" by simp
  from Grown_snoc [OF Cons.prems(2) this] have g1: "Grown H sk ?s" .
  have "c \<in> (\<lambda>b. Name (fst b)) ` set ?s" by (simp add: image_iff)
  from rec [OF r this] have g2: "Grown H ?s r" .
  from Grown_trans [OF g1 g2] have g3: "Grown H sk r" .
  from Grown_names [OF g3 Cons.prems(2)] have "p \<in> (\<lambda>b. Name (fst b)) ` set r" .
  from Cons.IH [OF rest this] Cons.prems(3) have "Grown H r sk'" by simp
  from Grown_trans [OF g3 this] show ?case .
qed

lemma RecursiveAddBones_Grown:
  "RecursiveAddBones fuel H sk p = Some (Inr sk') \<Longrightarrow> p \<in> (\<lambda>b. Name (fst b)) ` set sk \<Longrightarrow> Grown H sk sk'"
proof (induction fuel arbitrary: sk p sk')
  case 0
  then show ?case by simp
next
  case (Suc fuel)
  from Suc.prems(1) obtain k where k: "PathToBoneNames H p = Some k"
    by (auto split: option.splits)
  show ?case
  proof (cases "PathHashToBoneNames H k")
    case None
    with Suc.prems(1) k show ?thesis by (simp add: Grown_refl)
  next
    case (Some cs)
    with Suc.prems(1) k
    have run: "AddChildBones (\<lambda>s c. RecursiveAddBones fuel H s c) H p cs sk = Some (Inr sk')"
      by simp
    have ch: "\<forall>c \<in> set cs. ChildOf H c p"
      using k Some by (simp add: ChildOf_def)
    show ?thesis
      by (rule AddChildBones_Grown [OF _ run Suc.prems(2) ch]) (rule Suc.IH)
  qed
qed



lemma ChildSet_AddBone:
  "ChildSet (AddBone E H n pose k) k' = (if k' = k then insert n (ChildSet H k') else ChildSet H k')"
  by (auto simp: ChildSet_def AddBone_def TSet_Add_def split: option.splits)






lemma RecursiveAddBones_numeral:
  "RecursiveAddBones (numeral n) H sk p =
     (case PathToBoneNames H p of
        None \<Rightarrow> Some (Inl CheckFailed)
      | Some PathHash \<Rightarrow>
          (case PathHashToBoneNames H PathHash of
             None \<Rightarrow> Some (Inr sk)
           | Some BoneNames \<Rightarrow>
               AddChildBones (\<lambda>s c. RecursiveAddBones (pred_numeral n) H s c) H p BoneNames sk))"
  by (simp add: numeral_eq_Suc)


section \<open>Claims about \<^verbatim>\<open>PopulateSkeleton\<close>\<close>

text \<open>
  Claim C5. In every bone list that \<^verbatim>\<open>PopulateSkeleton\<close> emits, the first bone is the
  root with parent index \<^verbatim>\<open>INDEX_NONE\<close>, and every later bone has a parent index that
  points to an earlier position of the list; the bone at that position is the one under
  whose path hash the hierarchy lists the bone as a child.
\<close>

theorem PopulateSkeleton_parents_first:
  assumes "PopulateSkeleton fuel E H = Some (Inr sk)"
  shows "sk \<noteq> [] \<and> ParentIndex (fst (sk ! 0)) = INDEX_NONE \<and>
         (\<forall>i. 0 < i \<and> i < length sk \<longrightarrow> ParentEarlier H sk i)"
proof -
  from assms obtain cs where cs: "PathHashToBoneNames H (HashCombine E 0 0) = Some cs"
    by (auto simp: PopulateSkeleton_def split: option.splits)
  with assms obtain root rest where rt: "cs = root # rest"
    by (cases cs) (auto simp: PopulateSkeleton_def)
  with assms cs obtain pose where pose: "BoneNamePose H root = Some pose"
    by (auto simp: PopulateSkeleton_def split: option.splits)
  let ?s = "[(\<lparr>Name = root, ParentIndex = INDEX_NONE\<rparr>, pose)]"
  from assms cs rt pose have run: "RecursiveAddBones fuel H ?s root = Some (Inr sk)"
    by (simp add: PopulateSkeleton_def)
  have "root \<in> (\<lambda>b. Name (fst b)) ` set ?s" by simp
  from RecursiveAddBones_Grown [OF run this] have g: "Grown H ?s sk" .
  then have t: "take 1 sk = ?s" and l: "1 \<le> length sk"
    and pe: "\<forall>i. 1 \<le> i \<and> i < length sk \<longrightarrow> ParentEarlier H sk i"
    by (simp_all add: Grown_def)
  from l have ne: "sk \<noteq> []" by auto
  from t ne have "sk ! 0 = (\<lparr>Name = root, ParentIndex = INDEX_NONE\<rparr>, pose)"
    by (cases sk) simp_all
  with ne pe show ?thesis by (simp add: Suc_le_eq)
qed

theorem PopulateSkeleton_parents_first_witness:
  "PopulateSkeleton 3 SampleEngine Chain3 = Some (Inr Chain3Bones) \<and>
   ParentIndex (fst (Chain3Bones ! 0)) = INDEX_NONE \<and>
   ParentEarlier Chain3 Chain3Bones 1 \<and> ParentEarlier Chain3 Chain3Bones 2"
proof -
  have run: "PopulateSkeleton 3 SampleEngine Chain3 = Some (Inr Chain3Bones)"
    by (simp add: Chain3_def Chain3Bones_def AddBones_def AddBone_def EmptyHierarchy_def
        TSet_Add_def PopulateSkeleton_def SampleEngine_def INDEX_NONE_def FindBoneIndex_def
        Pose_def RecursiveAddBones_numeral)
  have len: "length Chain3Bones = 3" by (simp add: Chain3Bones_def)
  from PopulateSkeleton_parents_first [OF run] len
  have "ParentIndex (fst (Chain3Bones ! 0)) = INDEX_NONE"
    and "ParentEarlier Chain3 Chain3Bones 1" and "ParentEarlier Chain3 Chain3Bones 2"
    by simp_all
  with run show ?thesis by simp
qed




section \<open>Lemmas about the loops of \<^verbatim>\<open>MergeSkeletons\<close>\<close>

lemma StoreBone_Inr:
  assumes "StoreBone E si bone bi nm k pose st = Inr st'"
  shows "MergedBoneHierarchy st' =
           AddBone E (MergedBoneHierarchy st) nm
             (if si > 0 then GraftTransform E (the (BoneNode st)) bone bi nm pose else pose) k"
    and "BoneNamesToPathHash st' = (BoneNamesToPathHash st)(nm \<mapsto> k)"
    and "BoneNamesToBonePose st' = BoneNamesToBonePose st"
    and "HashToSockets st' = HashToSockets st"
    and "bMergeSkeletonsFailed st' = bMergeSkeletonsFailed st"
    and "BoneNode st' = BoneNode st"
    and "LogLines st' = LogLines st"
    and "si > 0 \<longrightarrow> BoneNode st \<noteq> None"
  using assms
  by (auto simp: StoreBone_def Let_def split: if_splits option.splits sum.splits)

lemma ProcessBone_Inr:
  assumes "ProcessBone E P N si S i st conf = Inr (st', conf', left)"
  obtains
    (broke) bone nm k nd old where
      "At (RawRefBoneInfo S) (int i) = Inr bone"
      "BonePath E N si S bone st = Inr (nm, k, nd)"
      "bCheckSkeletonsCompatibility P" "BoneNamesToPathHash st nm = Some old" "old \<noteq> k"
      "left" "conf' = conf"
      "st' = st\<lparr>BoneNode := nd, bMergeSkeletonsFailed := True,
                 LogLines := LogLines st @ [ErrorInvalidBoneChain (ObjectAddress S)]\<rparr>"
  | (stored) bone nm k nd pose where
      "At (RawRefBoneInfo S) (int i) = Inr bone"
      "BonePath E N si S bone st = Inr (nm, k, nd)"
      "At (RawRefBonePose S) (int i) = Inr pose"
      "\<not> left"
      "bCheckSkeletonsCompatibility P \<longrightarrow> BoneNamesToPathHash st nm = None \<or> BoneNamesToPathHash st nm = Some k"
      "MergedBoneHierarchy st' =
         AddBone E (MergedBoneHierarchy st) nm
           (if si > 0 then GraftTransform E (the nd) bone (int i) nm pose else pose) k"
      "BoneNamesToPathHash st' = (BoneNamesToPathHash st)(nm \<mapsto> k)"
      "BoneNamesToBonePose st' =
         (if bCheckSkeletonsCompatibility P then (BoneNamesToBonePose st)(nm \<mapsto> pose)
          else BoneNamesToBonePose st)"
      "HashToSockets st' = HashToSockets st"
      "bMergeSkeletonsFailed st' = bMergeSkeletonsFailed st"
      "BoneNode st' = nd"
      "si > 0 \<longrightarrow> nd \<noteq> None"
proof -
  from assms obtain bone where bone: "At (RawRefBoneInfo S) (int i) = Inr bone"
    by (auto simp: ProcessBone_def split: sum.splits)
  with assms obtain nm k nd where path: "BonePath E N si S bone st = Inr (nm, k, nd)"
    by (auto simp: ProcessBone_def split: sum.splits)
  let ?ex = "if bCheckSkeletonsCompatibility P then BoneNamesToPathHash st nm else None"
  show thesis
  proof (cases "?ex \<noteq> None \<and> ?ex \<noteq> Some k")
    case True
    then obtain old where c: "bCheckSkeletonsCompatibility P" "BoneNamesToPathHash st nm = Some old" "old \<noteq> k"
      by (auto split: if_splits)
    from assms bone path True
    have l: "left" "conf' = conf"
      "st' = st\<lparr>BoneNode := nd, bMergeSkeletonsFailed := True,
                 LogLines := LogLines st @ [ErrorInvalidBoneChain (ObjectAddress S)]\<rparr>"
      by (auto simp: ProcessBone_def Let_def)
    show ?thesis by (rule broke [OF bone path c l])
  next
    case False
    with assms bone path obtain pose where pose: "At (RawRefBonePose S) (int i) = Inr pose"
      by (auto simp: ProcessBone_def Let_def split: sum.splits if_splits)
    from assms bone path False pose obtain st2 where
      sb: "StoreBone E si bone (int i) nm k pose st2 = Inr st'"
      and st2: "BoneNode st2 = nd" "MergedBoneHierarchy st2 = MergedBoneHierarchy st"
        "BoneNamesToPathHash st2 = BoneNamesToPathHash st"
        "BoneNamesToBonePose st2 =
           (if bCheckSkeletonsCompatibility P then (BoneNamesToBonePose st)(nm \<mapsto> pose)
            else BoneNamesToBonePose st)"
        "HashToSockets st2 = HashToSockets st"
        "bMergeSkeletonsFailed st2 = bMergeSkeletonsFailed st"
      and nl: "\<not> left"
      by (auto simp: ProcessBone_def Let_def split: sum.splits if_splits option.splits)
    note s = StoreBone_Inr [OF sb]
    show ?thesis
    proof (rule stored [OF bone path pose nl])
      show "bCheckSkeletonsCompatibility P \<longrightarrow>
            BoneNamesToPathHash st nm = None \<or> BoneNamesToPathHash st nm = Some k"
        using False by auto
    qed (use s st2 in simp_all)
  qed
qed

lemma At_Inr: "At xs i = Inr x \<Longrightarrow> 0 \<le> i \<and> nat i < length xs \<and> x = xs ! nat i"
  by (auto simp: At_def split: if_splits)


lemma BonePath_name:
  "BonePath E N si S bone st = Inr (nm, k, nd) \<Longrightarrow> nm = PathJoin (Name bone) ''1''"
  by (auto simp: BonePath_def Let_def split: sum.splits if_splits prod.splits)

lemma ProcessBones_keeps:
  "ProcessBones E P N si S idxs st conf = Inr st' \<Longrightarrow>
   HashToSockets st' = HashToSockets st \<and> (bMergeSkeletonsFailed st \<longrightarrow> bMergeSkeletonsFailed st')"
proof (induction idxs arbitrary: st conf)
  case Nil
  then show ?case by simp
next
  case (Cons i idxs)
  from Cons.prems obtain st1 c1 l1 where
    step: "ProcessBone E P N si S i st conf = Inr (st1, c1, l1)"
    by (auto split: sum.splits)
  from step have keep: "HashToSockets st1 = HashToSockets st \<and>
      (bMergeSkeletonsFailed st \<longrightarrow> bMergeSkeletonsFailed st1)"
    by (rule ProcessBone_Inr) simp_all
  show ?case
  proof (cases l1)
    case True
    with Cons.prems step keep show ?thesis by simp
  next
    case False
    with Cons.prems step have "ProcessBones E P N si S idxs st1 c1 = Inr st'" by simp
    from Cons.IH [OF this] keep show ?thesis by simp
  qed
qed

lemma ProcessSkeleton_keeps:
  assumes "ProcessSkeleton E P N si ptr st = Inr st'"
  shows "bMergeSkeletonsFailed st \<longrightarrow> bMergeSkeletonsFailed st'"
    and "\<not> bMergeSkeletonsFailed st' \<longrightarrow>
         HashToSockets st' =
           (if bMergeSockets P then CollectSockets E (HashToSockets st) (SourceSockets [ptr])
            else HashToSockets st)"
proof -
  from assms obtain S where S: "ptr = Some S"
    by (cases ptr) (simp_all add: ProcessSkeleton_def)
  with assms obtain st1 where
    run: "ProcessBones E P N si S [0 ..< length (RawRefBoneInfo S)] st False = Inr st1"
    by (auto simp: ProcessSkeleton_def split: sum.splits)
  note k = ProcessBones_keeps [OF run]
  from assms S run have f: "bMergeSkeletonsFailed st' = bMergeSkeletonsFailed st1"
    by (auto simp: ProcessSkeleton_def split: if_splits)
  with k show "bMergeSkeletonsFailed st \<longrightarrow> bMergeSkeletonsFailed st'" by simp
  from assms S run k f show "\<not> bMergeSkeletonsFailed st' \<longrightarrow>
         HashToSockets st' =
           (if bMergeSockets P then CollectSockets E (HashToSockets st) (SourceSockets [ptr])
            else HashToSockets st)"
    by (auto simp: ProcessSkeleton_def SourceSockets_def split: if_splits)
qed

lemma CollectSockets_append:
  "CollectSockets E t (a @ b) = CollectSockets E (CollectSockets E t a) b"
  by (simp add: CollectSockets_def)

lemma SourceSockets_Cons: "SourceSockets (p # ps) = SourceSockets [p] @ SourceSockets ps"
  by (simp add: SourceSockets_def)

lemma ProcessSkeletons_keeps:
  "ProcessSkeletons E P N si srcs st = Inr st' \<Longrightarrow>
   (bMergeSkeletonsFailed st \<longrightarrow> bMergeSkeletonsFailed st') \<and>
   (\<not> bMergeSkeletonsFailed st' \<longrightarrow>
      HashToSockets st' =
        (if bMergeSockets P then CollectSockets E (HashToSockets st) (SourceSockets srcs)
         else HashToSockets st))"
proof (induction srcs arbitrary: st si)
  case Nil
  then show ?case by (simp add: SourceSockets_def CollectSockets_def)
next
  case (Cons p srcs)
  from Cons.prems obtain st1 where
    one: "ProcessSkeleton E P N si p st = Inr st1"
    and rest: "ProcessSkeletons E P N (Suc si) srcs st1 = Inr st'"
    by (auto split: sum.splits)
  note a = ProcessSkeleton_keeps [OF one] and b = Cons.IH [OF rest]
  show ?case
  proof (intro conjI impI)
    assume "bMergeSkeletonsFailed st"
    with a b show "bMergeSkeletonsFailed st'" by simp
  next
    assume nf: "\<not> bMergeSkeletonsFailed st'"
    with b have nf1: "\<not> bMergeSkeletonsFailed st1" by auto
    from a(2) nf1 b nf show "HashToSockets st' =
        (if bMergeSockets P then CollectSockets E (HashToSockets st) (SourceSockets (p # srcs))
         else HashToSockets st)"
      by (simp add: SourceSockets_Cons [of p srcs] CollectSockets_append)
  qed
qed

lemma NamesIn_ChildSet: "NamesIn H = (\<Union>k. ChildSet H k)"
proof (rule set_eqI)
  fix c
  show "c \<in> NamesIn H \<longleftrightarrow> c \<in> (\<Union>k. ChildSet H k)"
  proof
    assume "c \<in> NamesIn H"
    then obtain k cs where "PathHashToBoneNames H k = Some cs" "c \<in> set cs"
      unfolding NamesIn_def by blast
    then have "c \<in> ChildSet H k" by (simp add: ChildSet_def)
    then show "c \<in> (\<Union>k. ChildSet H k)" by blast
  next
    assume "c \<in> (\<Union>k. ChildSet H k)"
    then obtain k where k: "c \<in> ChildSet H k" by blast
    then obtain cs where "PathHashToBoneNames H k = Some cs" "c \<in> set cs"
      by (cases "PathHashToBoneNames H k") (simp_all add: ChildSet_def)
    then show "c \<in> NamesIn H" unfolding NamesIn_def by blast
  qed
qed

lemma NamesIn_AddBone: "NamesIn (AddBone E H n pose k) = insert n (NamesIn H)"
  by (auto simp: NamesIn_ChildSet ChildSet_AddBone split: if_splits)

lemma ProcessBone_names:
  assumes "ProcessBone E P N si S i st conf = Inr (st', conf', left)"
  shows "NamesIn (MergedBoneHierarchy st') \<subseteq> NamesIn (MergedBoneHierarchy st) \<union> MergedNames [Some S]"
  using assms
proof (cases rule: ProcessBone_Inr)
  case (broke bone nm k nd old)
  then show ?thesis by simp
next
  case (stored bone nm k nd pose)
  from At_Inr [OF stored(1)] have "bone \<in> set (RawRefBoneInfo S)" by simp
  with BonePath_name [OF stored(2)] have "nm \<in> MergedNames [Some S]"
    by (auto simp: MergedNames_def)
  with stored(6) show ?thesis by (simp add: NamesIn_AddBone)
qed

lemma ProcessBones_names:
  "ProcessBones E P N si S idxs st conf = Inr st' \<Longrightarrow>
   NamesIn (MergedBoneHierarchy st') \<subseteq> NamesIn (MergedBoneHierarchy st) \<union> MergedNames [Some S]"
proof (induction idxs arbitrary: st conf)
  case Nil
  then show ?case by simp
next
  case (Cons i idxs)
  from Cons.prems obtain st1 c1 l1 where
    step: "ProcessBone E P N si S i st conf = Inr (st1, c1, l1)"
    by (auto split: sum.splits)
  note a = ProcessBone_names [OF step]
  show ?case
  proof (cases l1)
    case True
    with Cons.prems step a show ?thesis by simp
  next
    case False
    with Cons.prems step have "ProcessBones E P N si S idxs st1 c1 = Inr st'" by simp
    from Cons.IH [OF this] a show ?thesis by blast
  qed
qed

lemma MergedNames_Cons: "MergedNames (p # ps) = MergedNames [p] \<union> MergedNames ps"
  by (auto simp: MergedNames_def)

lemma ProcessSkeleton_names:
  assumes "ProcessSkeleton E P N si ptr st = Inr st'"
  shows "NamesIn (MergedBoneHierarchy st') \<subseteq> NamesIn (MergedBoneHierarchy st) \<union> MergedNames [ptr]"
proof -
  from assms obtain S where S: "ptr = Some S"
    by (cases ptr) (simp_all add: ProcessSkeleton_def)
  with assms obtain st1 where
    run: "ProcessBones E P N si S [0 ..< length (RawRefBoneInfo S)] st False = Inr st1"
    by (auto simp: ProcessSkeleton_def split: sum.splits)
  from assms S run have "MergedBoneHierarchy st' = MergedBoneHierarchy st1"
    by (auto simp: ProcessSkeleton_def split: if_splits)
  with ProcessBones_names [OF run] S show ?thesis by simp
qed

lemma ProcessSkeletons_names:
  "ProcessSkeletons E P N si srcs st = Inr st' \<Longrightarrow>
   NamesIn (MergedBoneHierarchy st') \<subseteq> NamesIn (MergedBoneHierarchy st) \<union> MergedNames srcs"
proof (induction srcs arbitrary: st si)
  case Nil
  then show ?case by simp
next
  case (Cons p srcs)
  from Cons.prems obtain st1 where
    one: "ProcessSkeleton E P N si p st = Inr st1"
    and rest: "ProcessSkeletons E P N (Suc si) srcs st1 = Inr st'"
    by (auto split: sum.splits)
  from ProcessSkeleton_names [OF one] Cons.IH [OF rest] show ?case
    by (subst MergedNames_Cons) blast
qed


lemma foldl_AddUnique_subset: "set (foldl AddUnique acc xs) \<subseteq> set acc \<union> set xs"
proof (induction xs arbitrary: acc)
  case Nil
  then show ?case by simp
next
  case (Cons a xs)
  have "set (AddUnique acc a) \<subseteq> insert a (set acc)"
    by (auto simp: AddUnique_def)
  with Cons.IH [of "AddUnique acc a"] show ?case by auto
qed

lemma ToMergeSkeletons_subset: "set (ToMergeSkeletons P) \<subseteq> set (SkeletonsToMerge P)"
  using foldl_AddUnique_subset [of "[]" "SkeletonsToMerge P"] by (simp add: ToMergeSkeletons_def)

lemma MergeSkeletons_Returns:
  assumes "MergeSkeletons fuel E P N = Some (Returns out)"
  obtains st sk where
    "ProcessSkeletons E P N 0 (ToMergeSkeletons P) InitialState = Inr st"
    "\<not> bMergeSkeletonsFailed st"
    "PopulateSkeleton fuel E (MergedBoneHierarchy st) = Some (Inr sk)"
    "MergedBones out = sk"
    "MergedSockets out = (if bMergeSockets P then AddSockets (map snd (HashToSockets st)) else [])"
  using assms
  by (auto simp: MergeSkeletons_def Let_def split: if_splits sum.splits option.splits)

lemma foldl_AddUnique_Nil: "foldl AddUnique acc xs = [] \<longleftrightarrow> acc = [] \<and> xs = []"
proof (induction xs arbitrary: acc)
  case Nil
  then show ?case by simp
next
  case (Cons a xs)
  have "AddUnique acc a \<noteq> []" by (cases acc) (auto simp: AddUnique_def)
  with Cons.IH [of "AddUnique acc a"] show ?case by simp
qed



lemma TMap_Add_keys:
  "map fst (TMap_Add t k v) = (if k \<in> fst ` set t then map fst t else map fst t @ [k])"
  by (induction t) auto

lemma TMap_Add_set:
  "distinct (map fst t) \<Longrightarrow> set (TMap_Add t k v) = insert (k, v) {p \<in> set t. fst p \<noteq> k}"
  by (induction t) (auto simp: image_iff)

lemma CollectSockets_LastWins: "LastWins E (CollectSockets E [] socks) socks"
proof (induction socks rule: rev_induct)
  case Nil
  then show ?case by (simp add: LastWins_def CollectSockets_def)
next
  case (snoc x xs)
  let ?t = "CollectSockets E [] xs"
  have step: "CollectSockets E [] (xs @ [x]) = TMap_Add ?t (SocketKey E x) x"
    by (simp add: CollectSockets_def)
  from snoc have d: "distinct (map fst ?t)" and k: "fst ` set ?t = SocketKey E ` set xs"
    and v: "\<forall>p \<in> set ?t. SocketKey E (snd p) = fst p \<and>
              snd p = last (filter (\<lambda>u. SocketKey E u = fst p) xs)"
    unfolding LastWins_def by blast+
  have s: "set (TMap_Add ?t (SocketKey E x) x) = insert (SocketKey E x, x) {p \<in> set ?t. fst p \<noteq> SocketKey E x}"
    by (rule TMap_Add_set [OF d])
  have d': "distinct (map fst (TMap_Add ?t (SocketKey E x) x))"
    using d by (simp add: TMap_Add_keys)
  have k': "fst ` set (TMap_Add ?t (SocketKey E x) x) = SocketKey E ` set (xs @ [x])"
  proof -
    have "fst ` set (TMap_Add ?t (SocketKey E x) x) = set (map fst (TMap_Add ?t (SocketKey E x) x))"
      by simp
    also have "\<dots> = insert (SocketKey E x) (fst ` set ?t)"
      by (auto simp: TMap_Add_keys)
    finally show ?thesis using k by simp
  qed
  have v': "SocketKey E (snd p) = fst p \<and>
            snd p = last (filter (\<lambda>u. SocketKey E u = fst p) (xs @ [x]))"
    if "p \<in> set (TMap_Add ?t (SocketKey E x) x)" for p
  proof (cases "p = (SocketKey E x, x)")
    case True
    then show ?thesis by simp
  next
    case False
    with that s have pt: "p \<in> set ?t" and ne: "fst p \<noteq> SocketKey E x" by auto
    from v pt have "SocketKey E (snd p) = fst p"
      and "snd p = last (filter (\<lambda>u. SocketKey E u = fst p) xs)" by blast+
    moreover from ne have "filter (\<lambda>u. SocketKey E u = fst p) (xs @ [x]) =
        filter (\<lambda>u. SocketKey E u = fst p) xs" by auto
    ultimately show ?thesis by metis
  qed
  from d' k' v' show ?case unfolding step LastWins_def by blast
qed

lemma AddSockets_id: "AddSockets socks = socks"
  unfolding AddSockets_def by (rule map_idI) simp

lemma PathJoin_not_None: "\<not> IsNone (PathJoin a ''1'')"
  by (simp add: IsNone_def NAME_None_def PathJoin_def append_eq_Cons_conv)

lemma BonePath_grafted_root:
  assumes "BonePath E N si S bone st = Inr (nm, k, node)" "0 < si" "ParentIndex bone = INDEX_NONE"
    "find (\<lambda>Node. TemplateSkeleton Node = ObjectAddress S) N = Some nd"
  shows "node = Some nd"
    and "k = HashCombine E
               (case BoneNamesToPathHash st (PathJoin (AttachToName nd) ''1'') of
                  Some ParentPath \<Rightarrow> ParentPath | None \<Rightarrow> 0)
               (GetTypeHash E (PathJoin (AttachToName nd) ''1''))"
  using assms
  by (auto simp: BonePath_def ResolveRootParent_def Let_def PathJoin_not_None
      split: sum.splits if_splits prod.splits)

text \<open>Evaluation of the model on the sample data.\<close>

lemmas sample_eval =
  MergeSkeletons_def ToMergeSkeletons_def AddUnique_def SamePointer_def
  ProcessSkeleton_def ProcessBone_def BonePath_def StoreBone_def
  GraftTransform_def ResolveRootParent_def At_def INDEX_NONE_def NAME_None_def IsNone_def
  PathJoin_def IsValidIndex_def InitialState_def EmptyHierarchy_def AddBone_def TSet_Add_def
  CollectSockets_def SocketKey_def PopulateSkeleton_def RecursiveAddBones_numeral
  FindBoneIndex_def AddSockets_def SampleEngine_def Pose_def Let_def
  Params_def Body_def Blade_def BodyNode_def BladeNode_def LooseHand_def LooseHandNode_def
  Bone_def Sock_def

lemma Body_Blade_merge:
  "MergeSkeletons 5 SampleEngine (Params [Some Body, Some Blade] True True) [BodyNode, BladeNode] =
     Some (Returns BodyWithBlade)"
  by (simp add: sample_eval BodyWithBlade_def)

lemmas sample_eval2 = sample_eval BladeOnRoot_def BladeRemerged_def BladeRemergedNode_def
  Glove_def GloveNode_def GloveRemerged_def GloveRemergedNode_def StateAfter_def

section \<open>The first source of a merge\<close>











lemma WellFormed_Torso: "WellFormed Torso"
  by (auto simp: WellFormed_def Torso_def Bone_def INDEX_NONE_def nth_Cons' numeral_3_eq_3 less_Suc_eq)


section \<open>The names recorded in the merged hierarchy\<close>









section \<open>The depth-first order of a bone list\<close>



























section \<open>A source grafted onto an earlier one\<close>


















section \<open>Claims about \<^verbatim>\<open>MergeSkeletons\<close>\<close>




text \<open>
  Claim C3, as the code has it. \<^verbatim>\<open>MergeSkeletons\<close> gives up for want of sources, before
  any other work, exactly when the list of skeletons is empty; its test is
  \<^verbatim>\<open>NumberOfSkeletons == 0\<close>, under the comment "at least one valid Skeleton".
\<close>

theorem MergeSkeletons_NoSkeletons_iff:
  "MergeSkeletons fuel E P N = Some (ReturnsNull NoSkeletons) \<longleftrightarrow> SkeletonsToMerge P = []"
proof -
  have e: "ToMergeSkeletons P = [] \<longleftrightarrow> SkeletonsToMerge P = []"
    by (simp add: ToMergeSkeletons_def foldl_AddUnique_Nil)
  show ?thesis
  proof (cases "SkeletonsToMerge P = []")
    case True
    with e show ?thesis by (simp add: MergeSkeletons_def)
  next
    case False
    with e have "ToMergeSkeletons P \<noteq> []" by simp
    then have "MergeSkeletons fuel E P N \<noteq> Some (ReturnsNull NoSkeletons)"
      by (auto simp: MergeSkeletons_def Let_def split: sum.splits option.splits)
    with False show ?thesis by simp
  qed
qed

text \<open>
  Claim C3, as stated, fails: a list with a single valid skeleton is merged, and a
  skeleton is returned.
\<close>

theorem MergeSkeletons_single_source_counterexample:
  "length (filter (\<lambda>p. p \<noteq> None) (SkeletonsToMerge (Params [Some Body] True True))) = 1 \<and>
   MergeSkeletons 3 SampleEngine (Params [Some Body] True True) [] =
     Some (Returns
       \<lparr>MergedBones =
          [(Bone ''Root/1'' (-1), Pose 1), (Bone ''Arm/1'' 0, Pose 2), (Bone ''Hand/1'' 1, Pose 3)],
        MergedSockets = [Sock ''Grip'' ''Hand'' 10]\<rparr>)"
  by (simp add: sample_eval)




text \<open>
  Claim C7, as the code has it. With socket merging enabled, the sockets of the returned
  skeleton have pairwise different keys \<^verbatim>\<open>HashCombine(hash(SocketName), hash(BoneName))\<close>,
  every key of a source socket is present, and the socket kept for a key is the last one
  of that key in merge order: \<^verbatim>\<open>TMap::Add\<close> replaces the value of a key that is present.
\<close>

theorem sockets_last_occurrence_kept:
  assumes "MergeSkeletons fuel E P N = Some (Returns out)" and "bMergeSockets P"
  shows "distinct (map (SocketKey E) (MergedSockets out)) \<and>
         SocketKey E ` set (MergedSockets out) = SocketKey E ` set (SourceSockets (ToMergeSkeletons P)) \<and>
         (\<forall>s \<in> set (MergedSockets out).
            s = last (filter (\<lambda>u. SocketKey E u = SocketKey E s) (SourceSockets (ToMergeSkeletons P))))"
proof -
  let ?all = "SourceSockets (ToMergeSkeletons P)"
  let ?t = "CollectSockets E [] ?all"
  from assms obtain st where
    loop: "ProcessSkeletons E P N 0 (ToMergeSkeletons P) InitialState = Inr st"
    and nf: "\<not> bMergeSkeletonsFailed st"
    and out: "MergedSockets out = AddSockets (map snd (HashToSockets st))"
    by (auto elim!: MergeSkeletons_Returns)
  from ProcessSkeletons_keeps [OF loop] nf assms(2) have "HashToSockets st = ?t"
    by (simp add: InitialState_def)
  with out have o: "MergedSockets out = map snd ?t" by (simp add: AddSockets_id)
  have lw: "LastWins E ?t ?all" by (rule CollectSockets_LastWins)
  then have key: "\<forall>p \<in> set ?t. SocketKey E (snd p) = fst p"
    and d: "distinct (map fst ?t)" and k: "fst ` set ?t = SocketKey E ` set ?all"
    and v: "\<forall>p \<in> set ?t. snd p = last (filter (\<lambda>u. SocketKey E u = fst p) ?all)"
    unfolding LastWins_def by blast+
  from key have m: "map (SocketKey E) (map snd ?t) = map fst ?t" by simp
  from d have "distinct (map (SocketKey E) (map snd ?t))" unfolding m .
  with o have "distinct (map (SocketKey E) (MergedSockets out))" by metis
  moreover have "SocketKey E ` set (MergedSockets out) = SocketKey E ` set ?all"
  proof -
    have "SocketKey E ` set (MergedSockets out) = set (map (SocketKey E) (map snd ?t))"
      unfolding o by (simp only: set_map)
    also have "\<dots> = fst ` set ?t" unfolding m by simp
    finally show ?thesis using k by simp
  qed
  moreover have "s = last (filter (\<lambda>u. SocketKey E u = SocketKey E s) ?all)"
    if "s \<in> set (MergedSockets out)" for s
  proof -
    from that o obtain p where p: "p \<in> set ?t" "s = snd p" by auto
    from key v p(1) have "SocketKey E (snd p) = fst p"
      and "snd p = last (filter (\<lambda>u. SocketKey E u = fst p) ?all)" by blast+
    with p(2) show ?thesis by metis
  qed
  ultimately show ?thesis by blast
qed

theorem sockets_last_occurrence_kept_witness:
  "MergeSkeletons 5 SampleEngine (Params [Some Body, Some Blade] True True) [BodyNode, BladeNode] =
     Some (Returns BodyWithBlade) \<and>
   bMergeSockets (Params [Some Body, Some Blade] True True) \<and>
   Sock ''Grip'' ''Hand'' 20 \<in> set (MergedSockets BodyWithBlade) \<and>
   Sock ''Grip'' ''Hand'' 20 =
     last (filter (\<lambda>u. SocketKey SampleEngine u = SocketKey SampleEngine (Sock ''Grip'' ''Hand'' 20))
            (SourceSockets (ToMergeSkeletons (Params [Some Body, Some Blade] True True))))"
proof -
  let ?P = "Params [Some Body, Some Blade] True True"
  have s: "bMergeSockets ?P" by (simp add: Params_def)
  have m: "Sock ''Grip'' ''Hand'' 20 \<in> set (MergedSockets BodyWithBlade)"
    by (simp add: BodyWithBlade_def)
  from sockets_last_occurrence_kept [OF Body_Blade_merge s] m
  have "Sock ''Grip'' ''Hand'' 20 =
     last (filter (\<lambda>u. SocketKey SampleEngine u = SocketKey SampleEngine (Sock ''Grip'' ''Hand'' 20))
            (SourceSockets (ToMergeSkeletons ?P)))"
    by blast
  with Body_Blade_merge s m show ?thesis by blast
qed

text \<open>
  Claim C7, as stated, fails: body and blade both declare the socket \<open>Grip\<close> on \<open>Hand\<close>;
  the first occurrence in merge order is the body's, and the returned skeleton holds the
  blade's.
\<close>

theorem sockets_first_occurrence_counterexample:
  "MergeSkeletons 5 SampleEngine (Params [Some Body, Some Blade] True True) [BodyNode, BladeNode] =
     Some (Returns BodyWithBlade) \<and>
   MergedSockets BodyWithBlade = [Sock ''Grip'' ''Hand'' 20, Sock ''Tip'' ''Blade'' 30] \<and>
   hd (filter (\<lambda>u. SocketName u = ''Grip'' \<and> BoneName u = ''Hand'')
         (SourceSockets [Some Body, Some Blade])) = Sock ''Grip'' ''Hand'' 10 \<and>
   Sock ''Grip'' ''Hand'' 10 \<notin> set (MergedSockets BodyWithBlade)"
  using Body_Blade_merge
  by (simp add: BodyWithBlade_def SourceSockets_def Body_def Blade_def Sock_def)

text \<open>
  Claim C6, as the code has it. For the root bone of a skeleton after the first whose
  component node is found, when the reference skeleton of the component's mesh has a bone
  of the merged name, the transform added to the hierarchy has as location and rotation
  the component's relative transform applied to the location and rotation of the first
  reference pose of the component's own mesh (\<^verbatim>\<open>BoneWorldTransform\<close>, "the root bone
  transform of the part asset"), and the scale of the bone's own source pose. The
  transform of the attach bone is not read.
\<close>

theorem grafted_root_transform:
  assumes "ProcessBone E P N si S i st conf = Inr (st', conf', left)" and "\<not> left" and "0 < si"
    and "At (RawRefBoneInfo S) (int i) = Inr bone" and "ParentIndex bone = INDEX_NONE"
    and "find (\<lambda>Node. TemplateSkeleton Node = ObjectAddress S) N = Some nd"
    and "IsValidIndex (MeshRawRefBonePose nd) (IndexOfName (MeshRefBoneNames nd) (PathJoin (Name bone) ''1''))"
    and "At (RawRefBonePose S) (int i) = Inr pose"
  shows "BoneNamePose (MergedBoneHierarchy st') (PathJoin (Name bone) ''1'') =
           Some \<lparr>Rotation = TransformRotation E (RelativeTransform nd) (Rotation (MeshRawRefBonePose nd ! 0)),
                 Translation = TransformPosition E (RelativeTransform nd) (Translation (MeshRawRefBonePose nd ! 0)),
                 Scale3D = Scale3D pose\<rparr>"
  using assms(1)
proof (cases rule: ProcessBone_Inr)
  case (broke bone' nm k node old)
  with assms(2) show ?thesis by simp
next
  case (stored bone' nm k node pose')
  from stored(1) assms(4) have b: "bone' = bone" by simp
  from stored(3) assms(8) have p: "pose' = pose" by simp
  from BonePath_name [OF stored(2)] b have nm: "nm = PathJoin (Name bone) ''1''" by simp
  from BonePath_grafted_root(1) [OF stored(2) [unfolded b] assms(3,5,6)] have nd: "node = Some nd" .
  have "GraftTransform E nd bone (int i) nm pose =
          \<lparr>Rotation = TransformRotation E (RelativeTransform nd) (Rotation (MeshRawRefBonePose nd ! 0)),
           Translation = TransformPosition E (RelativeTransform nd) (Translation (MeshRawRefBonePose nd ! 0)),
           Scale3D = Scale3D pose\<rparr>"
    using assms(5,7) nm by (simp add: GraftTransform_def Let_def)
  with stored(6) assms(3) b p nd nm show ?thesis
    by (simp add: AddBone_def)
qed


theorem grafted_root_transform_witness:
  "0 < (1::nat) \<and>
   find (\<lambda>Node. TemplateSkeleton Node = ObjectAddress BladeRemerged) [BodyNode, BladeRemergedNode] =
     Some BladeRemergedNode \<and>
   IsValidIndex (MeshRawRefBonePose BladeRemergedNode)
     (IndexOfName (MeshRefBoneNames BladeRemergedNode) (PathJoin ''Blade'' ''1'')) \<and>
   (\<exists>st'. ProcessBone SampleEngine (Params [Some Body, Some BladeRemerged] False False)
               [BodyNode, BladeRemergedNode] 1 BladeRemerged 0
               (StateAfter (Params [Some Body, Some BladeRemerged] False False)
                  [BodyNode, BladeRemergedNode] [Some Body]) False = Inr (st', False, False) \<and>
            BoneNamePose (MergedBoneHierarchy st') ''Blade/1'' =
              Some \<lparr>Rotation = 0, Translation = 107, Scale3D = 1\<rparr>)"
proof -
  let ?P = "Params [Some Body, Some BladeRemerged] False False"
  let ?N = "[BodyNode, BladeRemergedNode]"
  have f: "find (\<lambda>Node. TemplateSkeleton Node = ObjectAddress BladeRemerged) ?N = Some BladeRemergedNode"
    by (simp add: sample_eval2)
  have v: "IsValidIndex (MeshRawRefBonePose BladeRemergedNode)
     (IndexOfName (MeshRefBoneNames BladeRemergedNode) (PathJoin (Name (Bone ''Blade'' (-1))) ''1''))"
    by (simp add: sample_eval2)
  have b: "At (RawRefBoneInfo BladeRemerged) (int 0) = Inr (Bone ''Blade'' (-1))"
    and r: "ParentIndex (Bone ''Blade'' (-1)) = INDEX_NONE"
    and p: "At (RawRefBonePose BladeRemerged) (int 0) = Inr (Pose 7)"
    by (simp_all add: sample_eval2)
  have "\<exists>st'. ProcessBone SampleEngine ?P ?N 1 BladeRemerged 0 (StateAfter ?P ?N [Some Body]) False =
          Inr (st', False, False)"
    by (simp add: sample_eval2)
  then obtain st' where
    run: "ProcessBone SampleEngine ?P ?N 1 BladeRemerged 0 (StateAfter ?P ?N [Some Body]) False =
            Inr (st', False, False)"
    by blast
  from grafted_root_transform [OF run _ _ b r f v p]
  have "BoneNamePose (MergedBoneHierarchy st') ''Blade/1'' =
          Some \<lparr>Rotation = 0, Translation = 107, Scale3D = 1\<rparr>"
    by (simp add: sample_eval2)
  with run f v show ?thesis by (auto simp: Bone_def)
qed

text \<open>
  Claim C6, as stated, fails. The blade is attached to \<open>Root\<close>, whose rest transform has
  location 1, at the relative placement 100, so the claim asks for location 101. The
  merged root of the blade keeps its source location 7, since its mesh has no bone of
  the merged name; the root of the blade that has such a bone gets 107, from the first
  reference pose of its own mesh.
\<close>

theorem grafted_root_transform_counterexample:
  "MergeSkeletons 5 SampleEngine (Params [Some Body, Some Blade] False False) [BodyNode, BladeOnRoot] =
     Some (Returns
       \<lparr>MergedBones =
          [(Bone ''Root/1'' (-1), Pose 1), (Bone ''Arm/1'' 0, Pose 2), (Bone ''Hand/1'' 1, Pose 3),
           (Bone ''Blade/1'' 0, Pose 7)],
        MergedSockets = []\<rparr>) \<and>
   MergeSkeletons 5 SampleEngine (Params [Some Body, Some BladeRemerged] False False)
       [BodyNode, BladeRemergedNode] =
     Some (Returns
       \<lparr>MergedBones =
          [(Bone ''Root/1'' (-1), Pose 1), (Bone ''Arm/1'' 0, Pose 2), (Bone ''Hand/1'' 1, Pose 3),
           (Bone ''Blade/1'' 0, Pose 107), (Bone ''Blade/1/1'' 3, Pose 8)],
        MergedSockets = []\<rparr>) \<and>
   TransformPosition SampleEngine (RelativeTransform BladeOnRoot) (Translation (Pose 1)) = 101 \<and>
   TransformPosition SampleEngine (RelativeTransform BladeRemergedNode) (Translation (Pose 1)) = 101"
  by (simp add: sample_eval2)

text \<open>
  Claim C8, as the code has it. With the compatibility check enabled, a bone whose merged
  name is already recorded with the same path hash and a different pose does not end the
  bone loop and does not set \<^verbatim>\<open>bMergeSkeletonsFailed\<close>; the warning is logged unless one was
  logged for this source before; the table of recorded poses takes the pose of the later
  source; and the pose that \<^verbatim>\<open>AddBone\<close> records in the hierarchy has the scale of the later
  source's pose, and is that pose whenever the graft rule for skeletons after the first
  does not apply (the mesh of the source's component has no bone of the merged name).
\<close>

theorem same_path_pose_overwritten:
  assumes "ProcessBone E P N si S i st conf = Inr (st', conf', left)"
    and "bCheckSkeletonsCompatibility P"
    and "At (RawRefBoneInfo S) (int i) = Inr bone"
    and "BonePath E N si S bone st = Inr (nm, k, nd)"
    and "BoneNamesToPathHash st nm = Some k"
    and "BoneNamesToBonePose st nm = Some old"
    and "At (RawRefBonePose S) (int i) = Inr pose"
    and "\<not> Equals E old pose"
  shows "\<not> left \<and> bMergeSkeletonsFailed st' = bMergeSkeletonsFailed st \<and> conf' \<and>
         (\<not> conf \<longrightarrow> LogLines st' = LogLines st @ [WarningDifferentReferencePose (ObjectAddress S)]) \<and>
         BoneNamesToBonePose st' nm = Some pose \<and>
         (\<exists>T. BoneNamePose (MergedBoneHierarchy st') nm = Some T \<and> Scale3D T = Scale3D pose \<and>
              ((si = 0 \<or> (\<forall>node. nd = Some node \<longrightarrow>
                   \<not> IsValidIndex (MeshRawRefBonePose node) (IndexOfName (MeshRefBoneNames node) nm)))
               \<longrightarrow> T = pose))"
proof -
  let ?T = "if si > 0 then GraftTransform E (the nd) bone (int i) nm pose else pose"
  have sc: "Scale3D (GraftTransform E node bone (int i) nm pose) = Scale3D pose" for node
    by (simp add: GraftTransform_def Let_def)
  have inv: "GraftTransform E node bone (int i) nm pose = pose"
    if "\<not> IsValidIndex (MeshRawRefBonePose node) (IndexOfName (MeshRefBoneNames node) nm)" for node
    using that by (simp add: GraftTransform_def Let_def)
  from assms have a: "\<not> left" "bMergeSkeletonsFailed st' = bMergeSkeletonsFailed st" "conf'"
    "\<not> conf \<longrightarrow> LogLines st' = LogLines st @ [WarningDifferentReferencePose (ObjectAddress S)]"
    "BoneNamesToBonePose st' nm = Some pose"
    "BoneNamePose (MergedBoneHierarchy st') nm = Some ?T"
    "si > 0 \<longrightarrow> nd \<noteq> None"
    by (auto simp: ProcessBone_def StoreBone_def Let_def AddBone_def
        split: if_splits option.splits sum.splits)
  have "Scale3D ?T = Scale3D pose" by (simp add: sc)
  moreover have "?T = pose"
    if "si = 0 \<or> (\<forall>node. nd = Some node \<longrightarrow>
          \<not> IsValidIndex (MeshRawRefBonePose node) (IndexOfName (MeshRefBoneNames node) nm))"
    using that a(7) inv by (cases "si = 0") auto
  ultimately show ?thesis using a by blast
qed

theorem same_path_pose_overwritten_witness:
  "bCheckSkeletonsCompatibility (Params [Some Body, Some Glove] False True) \<and>
   BoneNamesToPathHash
     (StateAfter (Params [Some Body, Some Glove] False True) [BodyNode, GloveNode] [Some Body])
     ''Hand/1'' = Some 23027 \<and>
   BoneNamesToBonePose
     (StateAfter (Params [Some Body, Some Glove] False True) [BodyNode, GloveNode] [Some Body])
     ''Hand/1'' = Some (Pose 3) \<and>
   \<not> Equals SampleEngine (Pose 3) (Pose 9) \<and>
   (\<exists>st'. ProcessBone SampleEngine (Params [Some Body, Some Glove] False True)
             [BodyNode, GloveNode] 1 Glove 0
             (StateAfter (Params [Some Body, Some Glove] False True) [BodyNode, GloveNode] [Some Body])
             False = Inr (st', True, False) \<and>
          \<not> bMergeSkeletonsFailed st' \<and>
          LogLines st' = [WarningDifferentReferencePose 4] \<and>
          BoneNamesToBonePose st' ''Hand/1'' = Some (Pose 9) \<and>
          BoneNamePose (MergedBoneHierarchy st') ''Hand/1'' = Some (Pose 9))"
proof -
  let ?P = "Params [Some Body, Some Glove] False True"
  let ?N = "[BodyNode, GloveNode]"
  let ?st = "StateAfter ?P ?N [Some Body]"
  have c: "bCheckSkeletonsCompatibility ?P" by (simp add: Params_def)
  have b: "At (RawRefBoneInfo Glove) (int 0) = Inr (Bone ''Hand'' (-1))"
    and p: "At (RawRefBonePose Glove) (int 0) = Inr (Pose 9)"
    by (simp_all add: sample_eval2)
  have path: "BonePath SampleEngine ?N 1 Glove (Bone ''Hand'' (-1)) ?st =
                Inr (''Hand/1'', 23027, Some GloveNode)"
    by (simp add: sample_eval2)
  have k: "BoneNamesToPathHash ?st ''Hand/1'' = Some 23027"
    and old: "BoneNamesToBonePose ?st ''Hand/1'' = Some (Pose 3)"
    and f: "\<not> bMergeSkeletonsFailed ?st" and l: "LogLines ?st = []"
    by (simp_all add: sample_eval2)
  have ne: "\<not> Equals SampleEngine (Pose 3) (Pose 9)"
    by (simp add: SampleEngine_def Pose_def)
  have inv: "\<forall>node. Some GloveNode = Some node \<longrightarrow>
      \<not> IsValidIndex (MeshRawRefBonePose node) (IndexOfName (MeshRefBoneNames node) ''Hand/1'')"
    by (simp add: sample_eval2)
  have "\<exists>st'. ProcessBone SampleEngine ?P ?N 1 Glove 0 ?st False = Inr (st', True, False)"
    by (simp add: sample_eval2)
  then obtain st' where
    run: "ProcessBone SampleEngine ?P ?N 1 Glove 0 ?st False = Inr (st', True, False)"
    by blast
  from same_path_pose_overwritten [OF run c b path k old p ne] f l inv
  have "\<not> bMergeSkeletonsFailed st'" "LogLines st' = [WarningDifferentReferencePose 4]"
    "BoneNamesToBonePose st' ''Hand/1'' = Some (Pose 9)"
    "BoneNamePose (MergedBoneHierarchy st') ''Hand/1'' = Some (Pose 9)"
    by (auto simp: Glove_def)
  with run c k old ne show ?thesis by blast
qed

text \<open>
  Claim C8, as stated, fails where the graft rule applies. The glove brings \<open>Hand\<close> with
  the path hash the body recorded and the pose 9 instead of 3; its mesh has a bone of the
  merged name \<open>Hand/1\<close>, so the hierarchy records neither pose but the location 109 of the
  graft rule.
\<close>

theorem same_path_pose_regrafted_counterexample:
  "BoneNamesToPathHash
     (StateAfter (Params [Some Body, Some GloveRemerged] False True) [BodyNode, GloveRemergedNode] [Some Body])
     ''Hand/1'' = Some 23027 \<and>
   BonePath SampleEngine [BodyNode, GloveRemergedNode] 1 GloveRemerged (Bone ''Hand'' (-1))
     (StateAfter (Params [Some Body, Some GloveRemerged] False True) [BodyNode, GloveRemergedNode] [Some Body]) =
     Inr (''Hand/1'', 23027, Some GloveRemergedNode) \<and>
   RawRefBonePose Body ! 2 = Pose 3 \<and> RawRefBonePose GloveRemerged ! 0 = Pose 9 \<and>
   MergeSkeletons 5 SampleEngine (Params [Some Body, Some GloveRemerged] False True)
       [BodyNode, GloveRemergedNode] =
     Some (Returns
       \<lparr>MergedBones =
          [(Bone ''Root/1'' (-1), Pose 1), (Bone ''Arm/1'' 0, Pose 2), (Bone ''Hand/1'' 1, Pose 109),
           (Bone ''Hand/1/1'' 2, Pose 4)],
        MergedSockets = []\<rparr>)"
  by (simp add: sample_eval2)




subsection \<open>Claim C9: merging a skeleton with itself\<close>




end
